theory Spec2Isabelle
  imports Main "HOL-Library.Char_ord" "HOL-Library.List_Lexorder" "HOL-Library.Sublist"
begin

section \<open>The AWS instance-identity node resolver (pkg/server/plugin/noderesolver/aws/iid.go)\<close>

text \<open>
  Conventions of the embedding.
  \<^item> A Go \<^verbatim>\<open>string\<close> is a \<open>string\<close> (a list of bytes); Go compares strings bytewise and
    lexicographically, which is the order that \<open>Char_ord\<close> and \<open>List_Lexorder\<close> put on
    \<open>char list\<close>.
  \<^item> A pointer that the source tests against \<^verbatim>\<open>nil\<close>, or reads through the nil-tolerant
    \<^verbatim>\<open>aws.StringValue\<close>, is an \<open>option\<close> (\<open>None\<close> is \<^verbatim>\<open>nil\<close>). The plugin's client map is
    an option too: a nil Go map reads as empty and panics on assignment.
  \<^item> All other pointers (the elements of the SDK's slices, the outputs of successful SDK
    calls and the \<^verbatim>\<open>InstanceProfile\<close> of a successful output) are dereferenced
    unconditionally by the source and are plain values here: the model covers the SDK
    results in which they are not nil, which is what the SDK's unmarshalling produces.
  \<^item> A formatted message (\<^verbatim>\<open>errs.New\<close>, \<^verbatim>\<open>logrus.Warnf\<close>) is kept as its format literal
    and the list of its arguments; \<^verbatim>\<open>fmt.Sprintf\<close> with \<^verbatim>\<open>%s\<close> verbs only is concatenation.
  \<^item> The remote service is a state of type \<open>'w\<close> that every SDK call may read and change;
    the calls made, the clients constructed and the warnings logged are returned as a
    list of events, in the order in which they happen.
  \<^item> The read-write mutex is not modelled: the functions are the sequential behaviour of
    one call at a time.
\<close>

subsection \<open>Constants\<close>

definition pluginName :: string where
  "pluginName = ''aws_iid''"

definition defaultRegion :: string where
  "defaultRegion = ''us-east-1''"

subsection \<open>Errors and events\<close>

type_synonym ext_error = string
  \<comment> \<open>an error value produced outside this file (SDK, HCL decoder, SPIFFE ID parser), by its text\<close>

datatype error =
    ErrsNew string "string list"        \<comment> \<open>\<^verbatim>\<open>errs.New(format, args...)\<close>\<close>
  | IidErrorNew string "string list"    \<comment> \<open>\<^verbatim>\<open>iidError.New(format, args...)\<close>\<close>
  | IidErrorWrap ext_error              \<comment> \<open>\<^verbatim>\<open>iidError.Wrap(err)\<close>\<close>
  | Panic string                        \<comment> \<open>a Go run-time panic\<close>

subsection \<open>SDK data\<close>

datatype credentials = StaticCredentials string string string

record aws_Config =
  Credentials :: "credentials option"
  Region :: "string option"

definition aws_NewConfig :: aws_Config where
  "aws_NewConfig = \<lparr>Credentials = None, Region = None\<rparr>"

definition aws_String :: "string \<Rightarrow> string option" where
  "aws_String s = Some s"

definition aws_StringValue :: "string option \<Rightarrow> string" where
  "aws_StringValue v = (case v of None \<Rightarrow> [] | Some s \<Rightarrow> s)"

record ec2_Filter =
  Filter_Name :: "string option"
  Filter_Values :: "string option list"

record ec2_Tag =
  Tag_Key :: "string option"
  Tag_Value :: "string option"

record ec2_GroupIdentifier =
  GroupId :: "string option"
  GroupName :: "string option"

record ec2_IamInstanceProfile =
  IamInstanceProfile_Arn :: "string option"

record ec2_Instance =
  Tags :: "ec2_Tag list"
  SecurityGroups :: "ec2_GroupIdentifier list"
  IamInstanceProfile :: "ec2_IamInstanceProfile option"

record ec2_Reservation =
  Instances :: "ec2_Instance list"

record ec2_DescribeInstancesInput =
  InstanceIds :: "string option list"
  Filters :: "ec2_Filter list"

record ec2_DescribeInstancesOutput =
  Reservations :: "ec2_Reservation list"

record iam_Role =
  Role_Arn :: "string option"

record iam_InstanceProfile =
  Roles :: "iam_Role list"

record iam_GetInstanceProfileInput =
  InstanceProfileName :: "string option"

record iam_GetInstanceProfileOutput =
  InstanceProfile :: iam_InstanceProfile

subsection \<open>Selectors\<close>

record Selector =
  Selector_Type :: string
  Selector_Value :: string

record Selectors =
  Entries :: "Selector list"

subsection \<open>The agent ID path pattern\<close>

text \<open>
  \<^verbatim>\<open>reAgentIDPath = ^/spire/agent/aws_iid/([^/]+)/([^/]+)/([^/]+)$\<close>, read from left to
  right: the literal prefix, then three times a longest non-empty run of bytes other than
  \<^verbatim>\<open>/\<close>, separated by a \<^verbatim>\<open>/\<close>, then the end of the text. A negated class matches every
  byte but the one it names and cannot run over the \<^verbatim>\<open>/\<close> that follows it, so the
  longest run is the only candidate for each group.
\<close>

definition agentIDPathPrefix :: string where
  "agentIDPathPrefix = ''/spire/agent/aws_iid/''"

fun stripLiteral :: "string \<Rightarrow> string \<Rightarrow> string option" where
  "stripLiteral [] s = Some s"
| "stripLiteral (c # cs) [] = None"
| "stripLiteral (c # cs) (d # ds) = (if c = d then stripLiteral cs ds else None)"

definition notSlash :: "char \<Rightarrow> bool" where
  "notSlash c \<longleftrightarrow> c \<noteq> CHR ''/''"

definition matchSegment :: "string \<Rightarrow> (string \<times> string) option" where
  "matchSegment s =
     (let g = takeWhile notSlash s
      in if g = [] then None else Some (g, dropWhile notSlash s))"

fun matchSlash :: "string \<Rightarrow> string option" where
  "matchSlash [] = None"
| "matchSlash (c # cs) = (if c = CHR ''/'' then Some cs else None)"

definition reAgentIDPath_FindStringSubmatch :: "string \<Rightarrow> string list option" where
  "reAgentIDPath_FindStringSubmatch s =
     (case stripLiteral agentIDPathPrefix s of
        None \<Rightarrow> None
      | Some r1 \<Rightarrow>
          (case matchSegment r1 of
             None \<Rightarrow> None
           | Some (g1, r2) \<Rightarrow>
               (case matchSlash r2 of
                  None \<Rightarrow> None
                | Some r3 \<Rightarrow>
                    (case matchSegment r3 of
                       None \<Rightarrow> None
                     | Some (g2, r4) \<Rightarrow>
                         (case matchSlash r4 of
                            None \<Rightarrow> None
                          | Some r5 \<Rightarrow>
                              (case matchSegment r5 of
                                 None \<Rightarrow> None
                               | Some (g3, r6) \<Rightarrow>
                                   (if r6 = [] then Some [s, g1, g2, g3] else None)))))))"

subsection \<open>parseAgentID\<close>

text \<open>
  \<^verbatim>\<open>idutil.ParseSpiffeID\<close> with \<^verbatim>\<open>idutil.AllowAnyTrustDomainAgent()\<close> is not in this file;
  it is the parameter \<open>ParseSpiffeID\<close>, which answers with the parsed URL or with the text
  of its error. Of the URL only the path is read.
\<close>

record url_URL =
  Scheme :: string
  Host :: string
  Path :: string

type_synonym spiffe_parser = "string \<Rightarrow> ext_error + url_URL"

definition parseAgentID :: "spiffe_parser \<Rightarrow> string \<Rightarrow> error + (string \<times> string \<times> string)" where
  "parseAgentID ParseSpiffeID spiffeID =
     (case ParseSpiffeID spiffeID of
        Inl err \<Rightarrow> Inl (ErrsNew ''unable to parse agent id %q: %v'' [spiffeID, err])
      | Inr u \<Rightarrow>
          (case reAgentIDPath_FindStringSubmatch (Path u) of
             None \<Rightarrow> Inl (ErrsNew ''malformed agent id %q'' [spiffeID])
           | Some m \<Rightarrow> Inr (m ! 1, m ! 2, m ! 3)))"

subsection \<open>Raw selector values\<close>

fun resolveTags :: "ec2_Tag list \<Rightarrow> string list" where
  "resolveTags [] = []"
| "resolveTags (tag # tags) =
     (''tag:'' @ aws_StringValue (Tag_Key tag) @ '':'' @ aws_StringValue (Tag_Value tag))
       # resolveTags tags"

fun resolveSecurityGroups :: "ec2_GroupIdentifier list \<Rightarrow> string list" where
  "resolveSecurityGroups [] = []"
| "resolveSecurityGroups (sg # sgs) =
     (''sg:id:'' @ aws_StringValue (GroupId sg))
       # (''sg:name:'' @ aws_StringValue (GroupName sg))
       # resolveSecurityGroups sgs"

fun resolveRoles :: "iam_Role list \<Rightarrow> string list" where
  "resolveRoles [] = []"
| "resolveRoles (role # roles) =
     (if Role_Arn role \<noteq> None
      then (''iamrole:'' @ aws_StringValue (Role_Arn role)) # resolveRoles roles
      else resolveRoles roles)"

definition resolveInstanceProfile :: "iam_InstanceProfile \<Rightarrow> string list" where
  "resolveInstanceProfile instanceProfile = resolveRoles (Roles instanceProfile)"

subsection \<open>The selector set and its sorted form\<close>

text \<open>
  \<^verbatim>\<open>selectorSet\<close> is a \<^verbatim>\<open>map[string]bool\<close> in which every stored value is \<^verbatim>\<open>true\<close>: a set of
  strings. The source lists its keys in the map's unspecified iteration order and sorts
  them with \<^verbatim>\<open>sort.Strings\<close>; \<open>sort_key_enumeration\<close> below shows that every such listing
  sorts to \<open>sorted_list_of_set\<close>.
\<close>

fun addSelectors :: "string set \<Rightarrow> string list \<Rightarrow> string set" where
  "addSelectors selectorSet [] = selectorSet"
| "addSelectors selectorSet (v # values) = addSelectors (insert v selectorSet) values"

definition makeSelectors :: "string list \<Rightarrow> Selectors" where
  "makeSelectors values =
     \<lparr>Entries = map (\<lambda>v. \<lparr>Selector_Type = pluginName, Selector_Value = v\<rparr>) values\<rparr>"

definition sortedSelectors :: "string set \<Rightarrow> Selectors" where
  "sortedSelectors selectorSet = makeSelectors (sorted_list_of_set selectorSet)"

text \<open>
  The path of the raw values through \<^verbatim>\<open>resolveSpiffeID\<close>: every batch of values goes into
  the initially empty set through \<^verbatim>\<open>addSelectors\<close>, and the set is then sorted and wrapped.
\<close>

definition normalizeSelectors :: "string list list \<Rightarrow> Selectors" where
  "normalizeSelectors vss = sortedSelectors (foldl addSelectors {} vss)"

definition selectorValues :: "Selectors \<Rightarrow> string list" where
  "selectorValues s = map Selector_Value (Entries s)"

definition byteLexLess :: "string \<Rightarrow> string \<Rightarrow> bool" where
  "byteLexLess a b \<longleftrightarrow> (a, b) \<in> lexord {(c, d). (of_char c :: nat) < of_char d}"

subsection \<open>The client interface, the plugin and the events\<close>

text \<open>
  \<^verbatim>\<open>awsClient\<close> is an interface of two methods. A method takes the state of the remote
  service and the request, and answers with the SDK's result (the output, or the text of
  the error) and the new state of the service. The context argument carries the caller's
  cancellation to the SDK, which reports it as an error of the call.
\<close>

record 'w awsClient =
  DescribeInstancesWithContext ::
    "'w \<Rightarrow> ec2_DescribeInstancesInput \<Rightarrow> (ext_error + ec2_DescribeInstancesOutput) \<times> 'w"
  GetInstanceProfileWithContext ::
    "'w \<Rightarrow> iam_GetInstanceProfileInput \<Rightarrow> (ext_error + iam_GetInstanceProfileOutput) \<times> 'w"

record IIDResolverConfig =
  AccessKeyID :: string
  SecretAccessKey :: string

record 'w IIDResolverPlugin =
  conf :: "aws_Config option"
  clients :: "(string \<rightharpoonup> 'w awsClient) option"
  hooks_getenv :: "string \<Rightarrow> string"
  hooks_newClient :: "aws_Config \<Rightarrow> error + 'w awsClient"

datatype fmt_arg = StringArg string | ErrorArg error

datatype event =
    Warnf string "fmt_arg list"
      \<comment> \<open>\<^verbatim>\<open>logrus.Warnf(format, args...)\<close>\<close>
  | NewClient aws_Config bool
      \<comment> \<open>\<^verbatim>\<open>p.hooks.newClient(conf)\<close> was called; the flag tells whether it returned a client\<close>
  | DescribeInstances ec2_DescribeInstancesInput "ext_error + ec2_DescribeInstancesOutput"
      \<comment> \<open>\<^verbatim>\<open>client.DescribeInstancesWithContext\<close> was called with this input and returned this\<close>
  | GetInstanceProfile iam_GetInstanceProfileInput "ext_error + iam_GetInstanceProfileOutput"
      \<comment> \<open>\<^verbatim>\<open>client.GetInstanceProfileWithContext\<close> was called with this input and returned this\<close>

definition instanceFilters :: "ec2_Filter list" where
  "instanceFilters =
     [\<lparr>Filter_Name = aws_String ''instance-state-name'',
       Filter_Values = [aws_String ''pending'', aws_String ''running'']\<rparr>]"

text \<open>
  \<^verbatim>\<open>NewIIDResolverPlugin\<close> stores \<^verbatim>\<open>os.Getenv\<close> and \<^verbatim>\<open>newAWSClient\<close> in the hooks; both reach
  outside the program and are parameters here. The other fields have Go's zero values.
\<close>

definition NewIIDResolverPlugin ::
    "(string \<Rightarrow> string) \<Rightarrow> (aws_Config \<Rightarrow> error + 'w awsClient) \<Rightarrow> 'w IIDResolverPlugin" where
  "NewIIDResolverPlugin os_Getenv newAWSClient =
     \<lparr>conf = None, clients = None, hooks_getenv = os_Getenv, hooks_newClient = newAWSClient\<rparr>"

subsection \<open>Configure\<close>

text \<open>
  \<^verbatim>\<open>hcl.Decode\<close> is the parameter \<open>hcl_Decode\<close>: from the configuration text to the decoded
  struct or the text of the error. The function returns the response (an empty struct,
  \<open>()\<close> here) or the error, and the plugin as the call leaves it.
\<close>

record spi_ConfigureRequest =
  Configuration :: string

type_synonym hcl_decoder = "string \<Rightarrow> ext_error + IIDResolverConfig"

definition setConfig :: "'w IIDResolverPlugin \<Rightarrow> aws_Config \<Rightarrow> (error + unit) \<times> 'w IIDResolverPlugin" where
  "setConfig p c = (Inr (), p\<lparr>conf := Some c, clients := Some Map.empty\<rparr>)"

definition Configure ::
    "hcl_decoder \<Rightarrow> 'w IIDResolverPlugin \<Rightarrow> spi_ConfigureRequest
       \<Rightarrow> (error + unit) \<times> 'w IIDResolverPlugin" where
  "Configure hcl_Decode p req =
     (case hcl_Decode (Configuration req) of
        Inl err \<Rightarrow> (Inl (IidErrorNew ''unable to decode configuration: %v'' [err]), p)
      | Inr decoded \<Rightarrow>
          (let config1 = (if AccessKeyID decoded = []
                          then decoded\<lparr>AccessKeyID := hooks_getenv p ''AWS_ACCESS_KEY_ID''\<rparr>
                          else decoded);
               config = (if SecretAccessKey config1 = []
                         then config1\<lparr>SecretAccessKey := hooks_getenv p ''AWS_SECRET_ACCESS_KEY''\<rparr>
                         else config1)
           in if AccessKeyID config \<noteq> [] \<and> SecretAccessKey config \<noteq> [] then
                setConfig p (aws_NewConfig\<lparr>Credentials :=
                  Some (StaticCredentials (AccessKeyID config) (SecretAccessKey config) [])\<rparr>)
              else if AccessKeyID config \<noteq> [] \<and> SecretAccessKey config = [] then
                (Inl (IidErrorNew ''configuration missing secret access key'' []), p)
              else if AccessKeyID config = [] \<and> SecretAccessKey config \<noteq> [] then
                (Inl (IidErrorNew ''configuration missing access key id'' []), p)
              else if AccessKeyID config = [] \<and> SecretAccessKey config = [] then
                (Inl (IidErrorNew
                   ''configuration missing both access key id and secret access key'' []), p)
              else setConfig p aws_NewConfig))"

subsection \<open>getRegionClient\<close>

definition lookupClient :: "'w IIDResolverPlugin \<Rightarrow> string \<Rightarrow> 'w awsClient option" where
  "lookupClient p region = (case clients p of None \<Rightarrow> None | Some m \<Rightarrow> m region)"

text \<open>
  The first lookup is the one under the read lock, the second the one under the write
  lock. The region is written into the shared configuration before the hook is called,
  and stays there whether or not the hook succeeds.
\<close>

definition getRegionClient ::
    "'w IIDResolverPlugin \<Rightarrow> string
       \<Rightarrow> (error + 'w awsClient) \<times> 'w IIDResolverPlugin \<times> event list" where
  "getRegionClient p region =
     (case lookupClient p region of
        Some client \<Rightarrow> (Inr client, p, [])
      | None \<Rightarrow>
          (case lookupClient p region of
             Some client \<Rightarrow> (Inr client, p, [])
           | None \<Rightarrow>
               (case conf p of
                  None \<Rightarrow> (Inl (IidErrorNew ''not configured'' []), p, [])
                | Some c \<Rightarrow>
                    (let c' = c\<lparr>Region := aws_String region\<rparr>;
                         p' = p\<lparr>conf := Some c'\<rparr>
                     in case hooks_newClient p' c' of
                          Inl err \<Rightarrow> (Inl err, p', [NewClient c' False])
                        | Inr client \<Rightarrow>
                            (case clients p' of
                               None \<Rightarrow>
                                 (Inl (Panic ''assignment to entry in nil map''), p',
                                  [NewClient c' True])
                             | Some m \<Rightarrow>
                                 (Inr client, p'\<lparr>clients := Some (m(region \<mapsto> client))\<rparr>,
                                  [NewClient c' True]))))))"

subsection \<open>resolveSpiffeID\<close>

text \<open>
  The inner loop of \<^verbatim>\<open>resolveSpiffeID\<close> over the instances of one reservation, and the outer
  loop over the reservations. Both carry the selector set and the state of the remote
  service, and stop at the first failed profile lookup.
\<close>

fun resolveInstances ::
    "'w awsClient \<Rightarrow> 'w \<Rightarrow> string set \<Rightarrow> ec2_Instance list
       \<Rightarrow> (error + string set) \<times> 'w \<times> event list" where
  "resolveInstances client w selectorSet [] = (Inr selectorSet, w, [])"
| "resolveInstances client w selectorSet (instance # rest) =
     (let s1 = addSelectors selectorSet (resolveTags (Tags instance));
          s2 = addSelectors s1 (resolveSecurityGroups (SecurityGroups instance))
      in case IamInstanceProfile instance of
           None \<Rightarrow> resolveInstances client w s2 rest
         | Some profile \<Rightarrow>
             (if IamInstanceProfile_Arn profile \<noteq> None then
                (let input = \<lparr>InstanceProfileName = IamInstanceProfile_Arn profile\<rparr>
                 in case GetInstanceProfileWithContext client w input of
                      (Inl err, w') \<Rightarrow>
                        (Inl (IidErrorWrap err), w', [GetInstanceProfile input (Inl err)])
                    | (Inr output, w') \<Rightarrow>
                        (case resolveInstances client w'
                                (addSelectors s2 (resolveInstanceProfile (InstanceProfile output)))
                                rest of
                           (r, w'', ev) \<Rightarrow>
                             (r, w'', GetInstanceProfile input (Inr output) # ev)))
              else resolveInstances client w s2 rest))"

fun resolveReservations ::
    "'w awsClient \<Rightarrow> 'w \<Rightarrow> string set \<Rightarrow> ec2_Reservation list
       \<Rightarrow> (error + string set) \<times> 'w \<times> event list" where
  "resolveReservations client w selectorSet [] = (Inr selectorSet, w, [])"
| "resolveReservations client w selectorSet (reservation # rest) =
     (case resolveInstances client w selectorSet (Instances reservation) of
        (Inl err, w', ev) \<Rightarrow> (Inl err, w', ev)
      | (Inr s', w', ev) \<Rightarrow>
          (case resolveReservations client w' s' rest of
             (r, w'', ev') \<Rightarrow> (r, w'', ev @ ev')))"

text \<open>
  The result is the pair of the source, \<^verbatim>\<open>(*common.Selectors, error)\<close>: \<open>Inl\<close> an error,
  \<open>Inr None\<close> the pair \<^verbatim>\<open>(nil, nil)\<close>, \<open>Inr (Some s)\<close> a selectors value.
\<close>

definition resolveSpiffeID ::
    "spiffe_parser \<Rightarrow> 'w IIDResolverPlugin \<Rightarrow> 'w \<Rightarrow> string
       \<Rightarrow> (error + Selectors option) \<times> 'w IIDResolverPlugin \<times> 'w \<times> event list" where
  "resolveSpiffeID ParseSpiffeID p w spiffeID =
     (case parseAgentID ParseSpiffeID spiffeID of
        Inl err \<Rightarrow>
          (Inr None, p, w,
           [Warnf ''unrecognized Agent ID: %s: %v'' [StringArg spiffeID, ErrorArg err]])
      | Inr (accountID, region, instanceID) \<Rightarrow>
          (case getRegionClient p region of
             (Inl err, p', ev) \<Rightarrow> (Inl err, p', w, ev)
           | (Inr client, p', ev) \<Rightarrow>
               (let input = \<lparr>InstanceIds = [aws_String instanceID], Filters = instanceFilters\<rparr>
                in case DescribeInstancesWithContext client w input of
                     (Inl err, w') \<Rightarrow>
                       (Inl (IidErrorWrap err), p', w', ev @ [DescribeInstances input (Inl err)])
                   | (Inr resp, w') \<Rightarrow>
                       (case resolveReservations client w' {} (Reservations resp) of
                          (Inl err, w'', ev') \<Rightarrow>
                            (Inl err, p', w'', ev @ DescribeInstances input (Inr resp) # ev')
                        | (Inr selectorSet, w'', ev') \<Rightarrow>
                            (Inr (Some (sortedSelectors selectorSet)), p', w'',
                             ev @ DescribeInstances input (Inr resp) # ev')))))"

subsection \<open>Resolve\<close>

record noderesolver_ResolveRequest =
  BaseSpiffeIdList :: "string list"

record noderesolver_ResolveResponse =
  Map :: "string \<rightharpoonup> Selectors"

text \<open>The loop of \<^verbatim>\<open>Resolve\<close> over the identities, carrying \<^verbatim>\<open>resp.Map\<close>.\<close>

fun resolveLoop ::
    "spiffe_parser \<Rightarrow> 'w IIDResolverPlugin \<Rightarrow> 'w \<Rightarrow> (string \<rightharpoonup> Selectors) \<Rightarrow> string list
       \<Rightarrow> (error + (string \<rightharpoonup> Selectors)) \<times> 'w IIDResolverPlugin \<times> 'w \<times> event list" where
  "resolveLoop ParseSpiffeID p w m [] = (Inr m, p, w, [])"
| "resolveLoop ParseSpiffeID p w m (spiffeID # rest) =
     (case resolveSpiffeID ParseSpiffeID p w spiffeID of
        (Inl err, p', w', ev) \<Rightarrow> (Inl err, p', w', ev)
      | (Inr selectors, p', w', ev) \<Rightarrow>
          (case resolveLoop ParseSpiffeID p' w'
                  (case selectors of None \<Rightarrow> m | Some s \<Rightarrow> m(spiffeID \<mapsto> s)) rest of
             (r, p'', w'', ev') \<Rightarrow> (r, p'', w'', ev @ ev')))"

definition Resolve ::
    "spiffe_parser \<Rightarrow> 'w IIDResolverPlugin \<Rightarrow> 'w \<Rightarrow> noderesolver_ResolveRequest
       \<Rightarrow> (error + noderesolver_ResolveResponse) \<times> 'w IIDResolverPlugin \<times> 'w \<times> event list" where
  "Resolve ParseSpiffeID p w req =
     (case resolveLoop ParseSpiffeID p w Map.empty (BaseSpiffeIdList req) of
        (Inl err, p', w', ev) \<Rightarrow> (Inl err, p', w', ev)
      | (Inr m, p', w', ev) \<Rightarrow> (Inr \<lparr>Map = m\<rparr>, p', w', ev))"

subsection \<open>Notions of the specification\<close>

text \<open>The two credential fields after the defaults from the environment have been applied.\<close>

definition effectiveAccessKeyID :: "'w IIDResolverPlugin \<Rightarrow> IIDResolverConfig \<Rightarrow> string" where
  "effectiveAccessKeyID p decoded =
     (if AccessKeyID decoded = [] then hooks_getenv p ''AWS_ACCESS_KEY_ID''
      else AccessKeyID decoded)"

definition effectiveSecretAccessKey :: "'w IIDResolverPlugin \<Rightarrow> IIDResolverConfig \<Rightarrow> string" where
  "effectiveSecretAccessKey p decoded =
     (if SecretAccessKey decoded = [] then hooks_getenv p ''AWS_SECRET_ACCESS_KEY''
      else SecretAccessKey decoded)"

text \<open>
  The plugin before any successful \<^verbatim>\<open>Configure\<close>: both fields still have their zero values.
\<close>

definition beforeConfigure :: "'w IIDResolverPlugin \<Rightarrow> bool" where
  "beforeConfigure p \<longleftrightarrow> conf p = None \<and> clients p = None"





fun isRemoteCall :: "event \<Rightarrow> bool" where
  "isRemoteCall (DescribeInstances i r) = True"
| "isRemoteCall (GetInstanceProfile i r) = True"
| "isRemoteCall (NewClient c ok) = False"
| "isRemoteCall (Warnf f args) = False"

fun isWarnf :: "event \<Rightarrow> bool" where
  "isWarnf (Warnf f args) = True"
| "isWarnf (NewClient c ok) = False"
| "isWarnf (DescribeInstances i r) = False"
| "isWarnf (GetInstanceProfile i r) = False"

fun remoteFailure :: "ext_error \<Rightarrow> event \<Rightarrow> bool" where
  "remoteFailure e (DescribeInstances i r) = (r = Inl e)"
| "remoteFailure e (GetInstanceProfile i r) = (r = Inl e)"
| "remoteFailure e (NewClient c ok) = False"
| "remoteFailure e (Warnf f args) = False"

text \<open>
  What one resolution is expected to do, read off the instances that the description
  returned: the ARN of the profile attached to an instance, when there is a profile and
  its ARN is present; the profile lookups that the instances call for, in order; the
  values that an instance gives without any lookup. And what the events show: the inputs
  of the profile lookups made, and the roles of the profiles that they returned.
\<close>

definition instanceProfileArn :: "ec2_Instance \<Rightarrow> string option" where
  "instanceProfileArn instance =
     (case IamInstanceProfile instance of
        None \<Rightarrow> None
      | Some profile \<Rightarrow> IamInstanceProfile_Arn profile)"

definition expectedProfileRequests :: "ec2_Instance list \<Rightarrow> iam_GetInstanceProfileInput list" where
  "expectedProfileRequests instances =
     map (\<lambda>arn. \<lparr>InstanceProfileName = Some arn\<rparr>) (List.map_filter instanceProfileArn instances)"

fun profileRequests :: "event list \<Rightarrow> iam_GetInstanceProfileInput list" where
  "profileRequests [] = []"
| "profileRequests (GetInstanceProfile i r # ev) = i # profileRequests ev"
| "profileRequests (DescribeInstances i r # ev) = profileRequests ev"
| "profileRequests (NewClient c ok # ev) = profileRequests ev"
| "profileRequests (Warnf f args # ev) = profileRequests ev"

fun profileRoles :: "event list \<Rightarrow> iam_Role list" where
  "profileRoles [] = []"
| "profileRoles (GetInstanceProfile i (Inr output) # ev) =
     Roles (InstanceProfile output) @ profileRoles ev"
| "profileRoles (GetInstanceProfile i (Inl err) # ev) = profileRoles ev"
| "profileRoles (DescribeInstances i r # ev) = profileRoles ev"
| "profileRoles (NewClient c ok # ev) = profileRoles ev"
| "profileRoles (Warnf f args # ev) = profileRoles ev"

definition allInstances :: "ec2_DescribeInstancesOutput \<Rightarrow> ec2_Instance list" where
  "allInstances resp = concat (map Instances (Reservations resp))"

definition instanceValues :: "ec2_Instance \<Rightarrow> string set" where
  "instanceValues instance =
     set (resolveTags (Tags instance)) \<union> set (resolveSecurityGroups (SecurityGroups instance))"

text \<open>A path segment in the words of the specification: one or more bytes, none of them \<^verbatim>\<open>/\<close>.\<close>

definition pathSegment :: "string \<Rightarrow> bool" where
  "pathSegment x \<longleftrightarrow> x \<noteq> [] \<and> CHR ''/'' \<notin> set x"

subsection \<open>Stand-ins for evaluating at concrete inputs\<close>

text \<open>
  A SPIFFE ID parser for the examples only: it accepts the IDs of the trust domain
  \<^verbatim>\<open>example.org\<close> and answers with the rest of the string as the path.
\<close>

definition exampleParseSpiffeID :: spiffe_parser where
  "exampleParseSpiffeID spiffeID =
     (case stripLiteral ''spiffe://example.org'' spiffeID of
        None \<Rightarrow> Inl ''not a SPIFFE ID of example.org''
      | Some rest \<Rightarrow> Inr \<lparr>Scheme = ''spiffe'', Host = ''example.org'', Path = rest\<rparr>)"

text \<open>
  A decoder for the examples only: the text up to the first blank is the access key ID, the
  text after it the secret access key. An environment that defines nothing but the secret
  access key.
\<close>

definition exampleDecode :: hcl_decoder where
  "exampleDecode text =
     Inr \<lparr>AccessKeyID = takeWhile (\<lambda>c. c \<noteq> CHR '' '') text,
          SecretAccessKey = drop 1 (dropWhile (\<lambda>c. c \<noteq> CHR '' '') text)\<rparr>"

definition exampleGetenv :: "string \<Rightarrow> string" where
  "exampleGetenv name = (if name = ''AWS_SECRET_ACCESS_KEY'' then ''s3cr3t'' else [])"

definition emptyGetenv :: "string \<Rightarrow> string" where
  "emptyGetenv name = []"

text \<open>
  A remote service for the examples only, with nothing that changes (its state is \<open>()\<close>).
  It knows the instance \<^verbatim>\<open>i-web\<close>, which has a tag, a security group and an instance
  profile, the instance \<^verbatim>\<open>i-bare\<close>, whose profile has an empty ARN, and the instance
  \<^verbatim>\<open>i-orphan\<close>, whose profile it does not know; it fails for the instance
  \<^verbatim>\<open>i-throttled\<close> and finds nothing for any other. The one profile it knows has a
  role with an ARN and a role without; under the empty name it answers with a profile
  whose role has an empty ARN.
\<close>

definition exampleProfileArn :: string where
  "exampleProfileArn = ''arn:aws:iam::123456789012:instance-profile/role1''"

definition exampleRoleArn :: string where
  "exampleRoleArn = ''arn:aws:iam::123456789012:role/role1''"

definition exampleWebInstance :: ec2_Instance where
  "exampleWebInstance =
     \<lparr>Tags = [\<lparr>Tag_Key = Some ''Name'', Tag_Value = Some ''web1''\<rparr>],
      SecurityGroups = [\<lparr>GroupId = Some ''sg-1'', GroupName = Some ''default''\<rparr>],
      IamInstanceProfile = Some \<lparr>IamInstanceProfile_Arn = Some exampleProfileArn\<rparr>\<rparr>"

definition exampleBareInstance :: ec2_Instance where
  "exampleBareInstance =
     \<lparr>Tags = [], SecurityGroups = [],
      IamInstanceProfile = Some \<lparr>IamInstanceProfile_Arn = Some []\<rparr>\<rparr>"

definition exampleOrphanInstance :: ec2_Instance where
  "exampleOrphanInstance =
     \<lparr>Tags = [], SecurityGroups = [],
      IamInstanceProfile = Some \<lparr>IamInstanceProfile_Arn = Some ''arn:gone''\<rparr>\<rparr>"

definition exampleDescribe ::
    "unit \<Rightarrow> ec2_DescribeInstancesInput \<Rightarrow> (ext_error + ec2_DescribeInstancesOutput) \<times> unit" where
  "exampleDescribe w input =
     (if InstanceIds input = [Some ''i-web''] then
        (Inr \<lparr>Reservations = [\<lparr>Instances = [exampleWebInstance]\<rparr>]\<rparr>, ())
      else if InstanceIds input = [Some ''i-bare''] then
        (Inr \<lparr>Reservations = [\<lparr>Instances = [exampleBareInstance]\<rparr>]\<rparr>, ())
      else if InstanceIds input = [Some ''i-orphan''] then
        (Inr \<lparr>Reservations = [\<lparr>Instances = [exampleOrphanInstance]\<rparr>]\<rparr>, ())
      else if InstanceIds input = [Some ''i-throttled''] then
        (Inl ''RequestLimitExceeded'', ())
      else (Inr \<lparr>Reservations = []\<rparr>, ()))"

definition exampleGetProfile ::
    "unit \<Rightarrow> iam_GetInstanceProfileInput \<Rightarrow> (ext_error + iam_GetInstanceProfileOutput) \<times> unit" where
  "exampleGetProfile w input =
     (if InstanceProfileName input = Some exampleProfileArn then
        (Inr \<lparr>InstanceProfile =
           \<lparr>Roles = [\<lparr>Role_Arn = Some exampleRoleArn\<rparr>, \<lparr>Role_Arn = None\<rparr>]\<rparr>\<rparr>, ())
      else if InstanceProfileName input = Some [] then
        (Inr \<lparr>InstanceProfile = \<lparr>Roles = [\<lparr>Role_Arn = Some []\<rparr>]\<rparr>\<rparr>, ())
      else (Inl ''NoSuchEntity'', ()))"

definition exampleClient :: "unit awsClient" where
  "exampleClient =
     \<lparr>DescribeInstancesWithContext = exampleDescribe,
      GetInstanceProfileWithContext = exampleGetProfile\<rparr>"

definition exampleNewClient :: "aws_Config \<Rightarrow> error + unit awsClient" where
  "exampleNewClient c =
     (if Region c = Some ''nowhere'' then Inl (IidErrorWrap ''no session'') else Inr exampleClient)"

text \<open>The fresh plugin of the examples, and the plugin after a successful \<^verbatim>\<open>Configure\<close>.\<close>

definition exampleNewPlugin :: "unit IIDResolverPlugin" where
  "exampleNewPlugin = NewIIDResolverPlugin exampleGetenv exampleNewClient"

definition exampleConfig :: aws_Config where
  "exampleConfig =
     \<lparr>Credentials = Some (StaticCredentials ''AKIA'' ''s3cr3t'' []), Region = None\<rparr>"

definition examplePlugin :: "unit IIDResolverPlugin" where
  "examplePlugin = exampleNewPlugin\<lparr>conf := Some exampleConfig, clients := Some Map.empty\<rparr>"



text \<open>The agent IDs of the examples, by the instance ID.\<close>

definition exampleAgentID :: "string \<Rightarrow> string" where
  "exampleAgentID instanceID = ''spiffe://example.org/spire/agent/aws_iid/1234/us-east-1/'' @ instanceID"

section \<open>Properties\<close>

subsection \<open>Evaluating the examples\<close>

lemmas example_defs =
  Resolve_def resolveSpiffeID_def parseAgentID_def exampleParseSpiffeID_def
  reAgentIDPath_FindStringSubmatch_def agentIDPathPrefix_def matchSegment_def notSlash_def
  getRegionClient_def lookupClient_def examplePlugin_def exampleNewPlugin_def
  NewIIDResolverPlugin_def exampleNewClient_def exampleConfig_def aws_String_def
  exampleClient_def exampleDescribe_def exampleGetProfile_def instanceFilters_def
  exampleWebInstance_def exampleBareInstance_def exampleOrphanInstance_def
  exampleProfileArn_def exampleRoleArn_def
  resolveInstances.simps(2) resolveInstanceProfile_def aws_StringValue_def
  sortedSelectors_def makeSelectors_def pluginName_def Let_def

subsection \<open>Normalisation\<close>

lemma addSelectors_eq: "addSelectors S vs = S \<union> set vs"
  by (induction vs arbitrary: S) auto

lemma addSelectors_foldl: "foldl addSelectors S vss = S \<union> set (concat vss)"
  by (induction vss arbitrary: S) (auto simp: addSelectors_eq)

lemma finite_addSelectors_foldl: "finite (foldl addSelectors {} vss)"
  by (simp add: addSelectors_foldl)

lemma sort_key_enumeration:
  "distinct ks \<Longrightarrow> set ks = S \<Longrightarrow> sort ks = sorted_list_of_set S"
  by (metis sorted_list_of_set_sort_remdups distinct_remdups_id)

lemma selectorValues_sortedSelectors:
  "selectorValues (sortedSelectors S) = sorted_list_of_set S"
  by (simp add: selectorValues_def sortedSelectors_def makeSelectors_def comp_def)

lemma byteLexLess_eq: "byteLexLess a b \<longleftrightarrow> a < b"
proof -
  have "{(c :: char, d). (of_char c :: nat) < of_char d} = {(c, d). c < d}"
    by (auto simp: less_char_def)
  then show ?thesis
    by (simp add: byteLexLess_def list_less_def)
qed

lemma resolveSpiffeID_sortedSelectors:
  "resolveSpiffeID P p w s = (Inr (Some sels), p', w', ev) \<Longrightarrow> \<exists>S. sels = sortedSelectors S"
  by (auto simp: resolveSpiffeID_def Let_def split: sum.splits prod.splits)

lemma sortedSelectors_sorted:
  "distinct (selectorValues (sortedSelectors S))
   \<and> sorted_wrt byteLexLess (selectorValues (sortedSelectors S))
   \<and> (\<forall>e \<in> set (Entries (sortedSelectors S)). Selector_Type e = pluginName)"
proof -
  have "sorted_wrt (<) (sorted_list_of_set S)"
    by simp
  moreover have "byteLexLess = (<)"
    by (intro ext) (simp add: byteLexLess_eq)
  ultimately have "sorted_wrt byteLexLess (sorted_list_of_set S)"
    by simp
  then show ?thesis
    by (auto simp: selectorValues_sortedSelectors) (auto simp: sortedSelectors_def makeSelectors_def)
qed

text \<open>
  C4. Whatever raw values are added to the selector set, in whatever batches, order and
  multiplicity, the selector sequence built from it holds exactly the values added, holds
  no value twice, ascends strictly in the bytewise lexicographic order, carries the
  plugin's name as the type of every entry, and is the same for any two inputs with the
  same set of values. Every selectors value that \<^verbatim>\<open>resolveSpiffeID\<close> returns is built in this
  way, and so has no value twice and ascends strictly.
\<close>

theorem normalize_sorted_distinct_canonical:
  "set (selectorValues (normalizeSelectors vss)) = set (concat vss)
   \<and> distinct (selectorValues (normalizeSelectors vss))
   \<and> sorted_wrt byteLexLess (selectorValues (normalizeSelectors vss))
   \<and> (\<forall>e \<in> set (Entries (normalizeSelectors vss)). Selector_Type e = pluginName)
   \<and> (set (concat vss) = set (concat wss) \<longrightarrow> normalizeSelectors wss = normalizeSelectors vss)
   \<and> (resolveSpiffeID ParseSpiffeID p w spiffeID = (Inr (Some sels), p', w', ev) \<longrightarrow>
        distinct (selectorValues sels)
        \<and> sorted_wrt byteLexLess (selectorValues sels)
        \<and> (\<forall>e \<in> set (Entries sels). Selector_Type e = pluginName))"
proof -
  have fin: "finite (foldl addSelectors {} vss)"
    by (rule finite_addSelectors_foldl)
  have vals: "selectorValues (normalizeSelectors vss) = sorted_list_of_set (foldl addSelectors {} vss)"
    by (simp add: normalizeSelectors_def selectorValues_sortedSelectors)
  have 1: "set (selectorValues (normalizeSelectors vss)) = set (concat vss)"
    using fin by (simp add: vals addSelectors_foldl)
  have 234: "distinct (selectorValues (normalizeSelectors vss))
   \<and> sorted_wrt byteLexLess (selectorValues (normalizeSelectors vss))
   \<and> (\<forall>e \<in> set (Entries (normalizeSelectors vss)). Selector_Type e = pluginName)"
    unfolding normalizeSelectors_def by (rule sortedSelectors_sorted)
  have 5: "set (concat vss) = set (concat wss) \<longrightarrow> normalizeSelectors wss = normalizeSelectors vss"
    by (simp add: normalizeSelectors_def addSelectors_foldl)
  have 6: "distinct (selectorValues sels)
        \<and> sorted_wrt byteLexLess (selectorValues sels)
        \<and> (\<forall>e \<in> set (Entries sels). Selector_Type e = pluginName)"
    if "resolveSpiffeID ParseSpiffeID p w spiffeID = (Inr (Some sels), p', w', ev)"
    using resolveSpiffeID_sortedSelectors [OF that] sortedSelectors_sorted by blast
  from 1 234 5 6 show ?thesis by blast
qed

theorem normalize_sorted_distinct_canonical_witness:
  "set (concat [[''tag:b:1'', ''sg:id:x''], [''iamrole:z'', ''tag:b:1'']])
     = set (concat [[''iamrole:z'', ''sg:id:x'', ''sg:id:x''], [], [''tag:b:1'']])
   \<and> normalizeSelectors [[''iamrole:z'', ''sg:id:x'', ''sg:id:x''], [], [''tag:b:1'']]
     = normalizeSelectors [[''tag:b:1'', ''sg:id:x''], [''iamrole:z'', ''tag:b:1'']]
   \<and> selectorValues (normalizeSelectors [[''tag:b:1'', ''sg:id:x''], [''iamrole:z'', ''tag:b:1'']])
     = [''iamrole:z'', ''sg:id:x'', ''tag:b:1'']
   \<and> selectorValues (the (projr (fst
        (resolveSpiffeID exampleParseSpiffeID examplePlugin () (exampleAgentID ''i-web'')))))
     = [''iamrole:arn:aws:iam::123456789012:role/role1'', ''sg:id:sg-1'',
        ''sg:name:default'', ''tag:Name:web1'']
   \<and> sorted_wrt byteLexLess (selectorValues (the (projr (fst
        (resolveSpiffeID exampleParseSpiffeID examplePlugin () (exampleAgentID ''i-web''))))))"
proof -
  let ?vss = "[[''tag:b:1'', ''sg:id:x''], [''iamrole:z'', ''tag:b:1'']]"
  let ?wss = "[[''iamrole:z'', ''sg:id:x'', ''sg:id:x''], [], [''tag:b:1'']]"
  let ?run = "resolveSpiffeID exampleParseSpiffeID examplePlugin () (exampleAgentID ''i-web'')"
  have h: "set (concat ?vss) = set (concat ?wss)"
    by auto
  have v: "selectorValues (normalizeSelectors ?vss) = [''iamrole:z'', ''sg:id:x'', ''tag:b:1'']"
    by code_simp
  have run: "?run = (Inr (Some (the (projr (fst ?run)))), fst (snd ?run), (), snd (snd (snd ?run)))"
    by (simp add: example_defs exampleAgentID_def)
  have vals: "selectorValues (the (projr (fst ?run)))
     = [''iamrole:arn:aws:iam::123456789012:role/role1'', ''sg:id:sg-1'',
        ''sg:name:default'', ''tag:Name:web1'']"
    by (simp add: example_defs exampleAgentID_def selectorValues_def)
  note at_example = normalize_sorted_distinct_canonical [where vss = ?vss and wss = ?wss
      and ParseSpiffeID = exampleParseSpiffeID and p = examplePlugin and w = "()"
      and spiffeID = "exampleAgentID ''i-web''" and sels = "the (projr (fst ?run))"
      and p' = "fst (snd ?run)" and w' = "()" and ev = "snd (snd (snd ?run))"]
  from at_example h
  have same: "normalizeSelectors ?wss = normalizeSelectors ?vss"
    by blast
  from at_example run
  have sorted: "sorted_wrt byteLexLess (selectorValues (the (projr (fst ?run))))"
    by blast
  from h same v vals sorted show ?thesis by blast
qed


subsection \<open>Parsing the agent ID\<close>

lemma stripLiteral_iff: "stripLiteral p s = Some r \<longleftrightarrow> s = p @ r"
  by (induction p s rule: stripLiteral.induct) auto

lemma matchSlash_iff: "matchSlash s = Some r \<longleftrightarrow> s = CHR ''/'' # r"
  by (cases s) auto

lemma takeWhile_notSlash_set: "CHR ''/'' \<notin> set (takeWhile notSlash s)"
  by (induction s) (auto simp: notSlash_def)

lemma matchSegment_SomeD:
  "matchSegment s = Some (g, r) \<Longrightarrow> pathSegment g \<and> s = g @ r"
  using takeWhile_notSlash_set [of s]
  by (auto simp: matchSegment_def pathSegment_def Let_def split: if_splits)

lemma takeWhile_notSlash_segment:
  "CHR ''/'' \<notin> set a \<Longrightarrow> takeWhile notSlash (a @ CHR ''/'' # r) = a"
  by (induction a) (auto simp: notSlash_def)

lemma dropWhile_notSlash_segment:
  "CHR ''/'' \<notin> set a \<Longrightarrow> dropWhile notSlash (a @ CHR ''/'' # r) = CHR ''/'' # r"
  by (induction a) (auto simp: notSlash_def)

lemma matchSegment_before_slash:
  "pathSegment a \<Longrightarrow> matchSegment (a @ CHR ''/'' # r) = Some (a, CHR ''/'' # r)"
  by (simp add: matchSegment_def pathSegment_def takeWhile_notSlash_segment
      dropWhile_notSlash_segment)

lemma matchSegment_at_end:
  "pathSegment a \<Longrightarrow> matchSegment a = Some (a, [])"
proof -
  assume a: "pathSegment a"
  then have all: "\<forall>c \<in> set a. notSlash c"
    by (auto simp: pathSegment_def notSlash_def)
  have t: "takeWhile notSlash a = a"
    using all by (simp add: takeWhile_eq_all_conv)
  have d: "dropWhile notSlash a = []"
    using all by simp
  from a have "a \<noteq> []"
    by (simp add: pathSegment_def)
  then show ?thesis
    unfolding matchSegment_def Let_def t d by simp
qed

lemma FindStringSubmatch_iff:
  "reAgentIDPath_FindStringSubmatch s = Some m \<longleftrightarrow>
     (\<exists>a b c. m = [s, a, b, c] \<and> pathSegment a \<and> pathSegment b \<and> pathSegment c
        \<and> s = agentIDPathPrefix @ a @ ''/'' @ b @ ''/'' @ c)"
  (is "?L \<longleftrightarrow> ?R")
proof
  assume ?L
  then obtain r1 g1 r2 r3 g2 r4 r5 g3 where
    1: "stripLiteral agentIDPathPrefix s = Some r1" and
    2: "matchSegment r1 = Some (g1, r2)" and
    3: "matchSlash r2 = Some r3" and
    4: "matchSegment r3 = Some (g2, r4)" and
    5: "matchSlash r4 = Some r5" and
    6: "matchSegment r5 = Some (g3, [])" and
    7: "m = [s, g1, g2, g3]"
    by (auto simp: reAgentIDPath_FindStringSubmatch_def split: option.splits if_splits)
  from 1 have "s = agentIDPathPrefix @ r1" by (simp add: stripLiteral_iff)
  moreover from 2 have "pathSegment g1" "r1 = g1 @ r2" by (auto dest: matchSegment_SomeD)
  moreover from 3 have "r2 = CHR ''/'' # r3" by (simp add: matchSlash_iff)
  moreover from 4 have "pathSegment g2" "r3 = g2 @ r4" by (auto dest: matchSegment_SomeD)
  moreover from 5 have "r4 = CHR ''/'' # r5" by (simp add: matchSlash_iff)
  moreover from 6 have "pathSegment g3" "r5 = g3" by (auto dest: matchSegment_SomeD)
  ultimately show ?R using 7 by auto
next
  assume ?R
  then obtain a b c where m: "m = [s, a, b, c]"
    and seg: "pathSegment a" "pathSegment b" "pathSegment c"
    and s: "s = agentIDPathPrefix @ a @ ''/'' @ b @ ''/'' @ c"
    by blast
  have 1: "stripLiteral agentIDPathPrefix s = Some (a @ CHR ''/'' # b @ CHR ''/'' # c)"
    by (simp add: stripLiteral_iff s)
  have 2: "matchSegment (a @ CHR ''/'' # b @ CHR ''/'' # c) = Some (a, CHR ''/'' # b @ CHR ''/'' # c)"
    using seg(1) by (rule matchSegment_before_slash)
  have 3: "matchSegment (b @ CHR ''/'' # c) = Some (b, CHR ''/'' # c)"
    using seg(2) by (rule matchSegment_before_slash)
  have 4: "matchSegment c = Some (c, [])"
    using seg(3) by (rule matchSegment_at_end)
  show ?L
    by (simp add: reAgentIDPath_FindStringSubmatch_def 1 2 3 4 m)
qed

text \<open>
  C6. \<^verbatim>\<open>parseAgentID\<close> succeeds exactly on the identities that \<^verbatim>\<open>idutil.ParseSpiffeID\<close>
  accepts and whose path is the prefix \<^verbatim>\<open>/spire/agent/aws_iid/\<close> followed by exactly three
  non-empty segments without \<^verbatim>\<open>/\<close>, separated by \<^verbatim>\<open>/\<close>; what it returns is these three
  segments as account ID, region and instance ID, in that order.
\<close>

theorem parseAgentID_succeeds_iff:
  "(parseAgentID ParseSpiffeID spiffeID = Inr (accountID, region, instanceID) \<longleftrightarrow>
      (\<exists>u. ParseSpiffeID spiffeID = Inr u
         \<and> Path u = agentIDPathPrefix @ accountID @ ''/'' @ region @ ''/'' @ instanceID
         \<and> pathSegment accountID \<and> pathSegment region \<and> pathSegment instanceID))
   \<and> ((\<exists>r. parseAgentID ParseSpiffeID spiffeID = Inr r) \<longleftrightarrow>
      (\<exists>u a b c. ParseSpiffeID spiffeID = Inr u
         \<and> Path u = agentIDPathPrefix @ a @ ''/'' @ b @ ''/'' @ c
         \<and> pathSegment a \<and> pathSegment b \<and> pathSegment c))"
proof -
  have one: "parseAgentID ParseSpiffeID spiffeID = Inr (a, b, c) \<longleftrightarrow>
      (\<exists>u. ParseSpiffeID spiffeID = Inr u
         \<and> Path u = agentIDPathPrefix @ a @ ''/'' @ b @ ''/'' @ c
         \<and> pathSegment a \<and> pathSegment b \<and> pathSegment c)" for a b c
  proof (cases "ParseSpiffeID spiffeID")
    case (Inl err)
    then show ?thesis by (simp add: parseAgentID_def)
  next
    case (Inr u)
    show ?thesis
    proof (cases "reAgentIDPath_FindStringSubmatch (Path u)")
      case None
      then have "\<not> (pathSegment a \<and> pathSegment b \<and> pathSegment c
          \<and> Path u = agentIDPathPrefix @ a @ ''/'' @ b @ ''/'' @ c)"
        using FindStringSubmatch_iff [of "Path u" "[Path u, a, b, c]"] by auto
      with None Inr show ?thesis by (auto simp: parseAgentID_def)
    next
      case (Some m)
      then obtain a' b' c' where m: "m = [Path u, a', b', c']"
        and seg: "pathSegment a'" "pathSegment b'" "pathSegment c'"
        and pth: "Path u = agentIDPathPrefix @ a' @ ''/'' @ b' @ ''/'' @ c'"
        using FindStringSubmatch_iff [of "Path u" m] by blast
      have res: "parseAgentID ParseSpiffeID spiffeID = Inr (a', b', c')"
        by (simp add: parseAgentID_def Inr Some m)
      show ?thesis
      proof
        assume "parseAgentID ParseSpiffeID spiffeID = Inr (a, b, c)"
        with res have "a = a'" "b = b'" "c = c'" by simp_all
        with seg pth Inr show "\<exists>u. ParseSpiffeID spiffeID = Inr u
         \<and> Path u = agentIDPathPrefix @ a @ ''/'' @ b @ ''/'' @ c
         \<and> pathSegment a \<and> pathSegment b \<and> pathSegment c" by simp
      next
        assume "\<exists>u. ParseSpiffeID spiffeID = Inr u
         \<and> Path u = agentIDPathPrefix @ a @ ''/'' @ b @ ''/'' @ c
         \<and> pathSegment a \<and> pathSegment b \<and> pathSegment c"
        with Inr have "reAgentIDPath_FindStringSubmatch (Path u) = Some [Path u, a, b, c]"
          using FindStringSubmatch_iff [of "Path u" "[Path u, a, b, c]"] by auto
        with Some m have "a = a'" "b = b'" "c = c'" by simp_all
        with res show "parseAgentID ParseSpiffeID spiffeID = Inr (a, b, c)" by simp
      qed
    qed
  qed
  have two: "(\<exists>r. parseAgentID ParseSpiffeID spiffeID = Inr r) \<longleftrightarrow>
      (\<exists>a b c. parseAgentID ParseSpiffeID spiffeID = Inr (a, b, c))"
    by (metis prod_cases3)
  show ?thesis
    unfolding two using one by blast
qed

theorem parseAgentID_succeeds_iff_witness:
  "parseAgentID exampleParseSpiffeID ''spiffe://example.org/spire/agent/aws_iid/1234/us-east-1/i-0abc''
     = Inr (''1234'', ''us-east-1'', ''i-0abc'')
   \<and> pathSegment ''1234'' \<and> pathSegment ''us-east-1'' \<and> pathSegment ''i-0abc''"
proof -
  have u: "exampleParseSpiffeID ''spiffe://example.org/spire/agent/aws_iid/1234/us-east-1/i-0abc''
     = Inr \<lparr>Scheme = ''spiffe'', Host = ''example.org'',
            Path = ''/spire/agent/aws_iid/1234/us-east-1/i-0abc''\<rparr>"
    by (simp add: exampleParseSpiffeID_def)
  have seg: "pathSegment ''1234''" "pathSegment ''us-east-1''" "pathSegment ''i-0abc''"
    by (simp_all add: pathSegment_def)
  have ok: "parseAgentID exampleParseSpiffeID
      ''spiffe://example.org/spire/agent/aws_iid/1234/us-east-1/i-0abc''
     = Inr (''1234'', ''us-east-1'', ''i-0abc'')"
    using parseAgentID_succeeds_iff [of exampleParseSpiffeID
        "''spiffe://example.org/spire/agent/aws_iid/1234/us-east-1/i-0abc''"
        "''1234''" "''us-east-1''" "''i-0abc''"] u seg
    by (simp add: agentIDPathPrefix_def)
  from ok seg show ?thesis by simp
qed

subsection \<open>Configure\<close>

lemma Configure_effective:
  assumes "hcl_Decode (Configuration req) = Inr decoded"
  shows "Configure hcl_Decode p req =
     (let k = effectiveAccessKeyID p decoded; s = effectiveSecretAccessKey p decoded
      in if k \<noteq> [] \<and> s \<noteq> [] then
           setConfig p (aws_NewConfig\<lparr>Credentials := Some (StaticCredentials k s [])\<rparr>)
         else if k \<noteq> [] then
           (Inl (IidErrorNew ''configuration missing secret access key'' []), p)
         else if s \<noteq> [] then
           (Inl (IidErrorNew ''configuration missing access key id'' []), p)
         else
           (Inl (IidErrorNew
              ''configuration missing both access key id and secret access key'' []), p))"
  using assms
  by (simp add: Configure_def effectiveAccessKeyID_def effectiveSecretAccessKey_def Let_def)

text \<open>
  C5. When the configuration decodes and, after the defaults from the environment, exactly
  one of the two credential fields is non-empty, \<^verbatim>\<open>Configure\<close> returns the error that names
  the missing field and leaves the plugin as it was; when both are non-empty it succeeds
  and installs a configuration with these static credentials, together with an empty
  client map.
\<close>

theorem Configure_credential_pairs:
  assumes "hcl_Decode (Configuration req) = Inr decoded"
    and "k = effectiveAccessKeyID p decoded"
    and "s = effectiveSecretAccessKey p decoded"
  shows "(k \<noteq> [] \<and> s = [] \<longrightarrow>
            Configure hcl_Decode p req =
              (Inl (IidErrorNew ''configuration missing secret access key'' []), p))
       \<and> (k = [] \<and> s \<noteq> [] \<longrightarrow>
            Configure hcl_Decode p req =
              (Inl (IidErrorNew ''configuration missing access key id'' []), p))
       \<and> (k \<noteq> [] \<and> s \<noteq> [] \<longrightarrow>
            Configure hcl_Decode p req =
              (Inr (), p\<lparr>conf := Some \<lparr>Credentials = Some (StaticCredentials k s []),
                                       Region = None\<rparr>,
                         clients := Some Map.empty\<rparr>))"
  using Configure_effective [of hcl_Decode req decoded p] assms
  by (simp add: Let_def setConfig_def aws_NewConfig_def)

theorem Configure_credential_pairs_witness:
  "Configure exampleDecode (NewIIDResolverPlugin emptyGetenv exampleNewClient)
       \<lparr>Configuration = ''AKIA''\<rparr>
     = (Inl (IidErrorNew ''configuration missing secret access key'' []),
        NewIIDResolverPlugin emptyGetenv exampleNewClient)
   \<and> Configure exampleDecode (NewIIDResolverPlugin exampleGetenv exampleNewClient)
       \<lparr>Configuration = []\<rparr>
     = (Inl (IidErrorNew ''configuration missing access key id'' []),
        NewIIDResolverPlugin exampleGetenv exampleNewClient)
   \<and> Configure exampleDecode (NewIIDResolverPlugin exampleGetenv exampleNewClient)
       \<lparr>Configuration = ''AKIA''\<rparr>
     = (Inr (), (NewIIDResolverPlugin exampleGetenv exampleNewClient)
          \<lparr>conf := Some \<lparr>Credentials = Some (StaticCredentials ''AKIA'' ''s3cr3t'' []),
                          Region = None\<rparr>,
            clients := Some Map.empty\<rparr>)"
proof -
  have d1: "exampleDecode (Configuration \<lparr>Configuration = ''AKIA''\<rparr>)
      = Inr \<lparr>AccessKeyID = ''AKIA'', SecretAccessKey = []\<rparr>"
    by (simp add: exampleDecode_def)
  have d2: "exampleDecode (Configuration \<lparr>Configuration = []\<rparr>)
      = Inr \<lparr>AccessKeyID = [], SecretAccessKey = []\<rparr>"
    by (simp add: exampleDecode_def)
  have a: "Configure exampleDecode (NewIIDResolverPlugin emptyGetenv exampleNewClient)
       \<lparr>Configuration = ''AKIA''\<rparr>
     = (Inl (IidErrorNew ''configuration missing secret access key'' []),
        NewIIDResolverPlugin emptyGetenv exampleNewClient)"
    using Configure_credential_pairs [where hcl_Decode = exampleDecode
        and req = "\<lparr>Configuration = ''AKIA''\<rparr>"
        and decoded = "\<lparr>AccessKeyID = ''AKIA'', SecretAccessKey = []\<rparr>"
        and p = "NewIIDResolverPlugin emptyGetenv exampleNewClient"
        and k = "''AKIA''" and s = "[]"] d1
    by (simp add: effectiveAccessKeyID_def effectiveSecretAccessKey_def
        NewIIDResolverPlugin_def emptyGetenv_def)
  have b: "Configure exampleDecode (NewIIDResolverPlugin exampleGetenv exampleNewClient)
       \<lparr>Configuration = []\<rparr>
     = (Inl (IidErrorNew ''configuration missing access key id'' []),
        NewIIDResolverPlugin exampleGetenv exampleNewClient)"
    using Configure_credential_pairs [where hcl_Decode = exampleDecode
        and req = "\<lparr>Configuration = []\<rparr>"
        and decoded = "\<lparr>AccessKeyID = [], SecretAccessKey = []\<rparr>"
        and p = "NewIIDResolverPlugin exampleGetenv exampleNewClient"
        and k = "[]" and s = "''s3cr3t''"] d2
    by (simp add: effectiveAccessKeyID_def effectiveSecretAccessKey_def
        NewIIDResolverPlugin_def exampleGetenv_def)
  have c: "Configure exampleDecode (NewIIDResolverPlugin exampleGetenv exampleNewClient)
       \<lparr>Configuration = ''AKIA''\<rparr>
     = (Inr (), (NewIIDResolverPlugin exampleGetenv exampleNewClient)
          \<lparr>conf := Some \<lparr>Credentials = Some (StaticCredentials ''AKIA'' ''s3cr3t'' []),
                          Region = None\<rparr>,
            clients := Some Map.empty\<rparr>)"
    using Configure_credential_pairs [where hcl_Decode = exampleDecode
        and req = "\<lparr>Configuration = ''AKIA''\<rparr>"
        and decoded = "\<lparr>AccessKeyID = ''AKIA'', SecretAccessKey = []\<rparr>"
        and p = "NewIIDResolverPlugin exampleGetenv exampleNewClient"
        and k = "''AKIA''" and s = "''s3cr3t''"] d1
    by (simp add: effectiveAccessKeyID_def effectiveSecretAccessKey_def
        NewIIDResolverPlugin_def exampleGetenv_def)
  from a b c show ?thesis by blast
qed

subsection \<open>The client cache\<close>










lemma Configure_failure_unchanged:
  "Configure hcl_Decode p req = (Inl e, p') \<Longrightarrow> p' = p"
  by (auto simp: Configure_def setConfig_def Let_def split: sum.splits if_splits)






subsection \<open>The loops of the resolution\<close>

lemma resolveRoles_append: "resolveRoles (xs @ ys) = resolveRoles xs @ resolveRoles ys"
  by (induction xs) auto

lemma profileRequests_append: "profileRequests (xs @ ys) = profileRequests xs @ profileRequests ys"
  by (induction xs rule: profileRequests.induct) auto

lemma profileRoles_append: "profileRoles (xs @ ys) = profileRoles xs @ profileRoles ys"
  by (induction xs rule: profileRoles.induct) auto

lemma expectedProfileRequests_Nil: "expectedProfileRequests [] = []"
  by (simp add: expectedProfileRequests_def map_filter_simps)

lemma expectedProfileRequests_Cons:
  "expectedProfileRequests (i # is) =
     (case instanceProfileArn i of
        None \<Rightarrow> expectedProfileRequests is
      | Some arn \<Rightarrow> \<lparr>InstanceProfileName = Some arn\<rparr> # expectedProfileRequests is)"
  by (simp add: expectedProfileRequests_def map_filter_simps split: option.splits)

lemma expectedProfileRequests_append:
  "expectedProfileRequests (xs @ ys) = expectedProfileRequests xs @ expectedProfileRequests ys"
  by (induction xs) (auto simp: expectedProfileRequests_Nil expectedProfileRequests_Cons
      split: option.splits)

text \<open>One instance of the inner loop, as an equation.\<close>

lemma resolveInstances_Cons:
  "resolveInstances client w S (instance # rest) =
     (case instanceProfileArn instance of
        None \<Rightarrow> resolveInstances client w (S \<union> instanceValues instance) rest
      | Some arn \<Rightarrow>
          (case GetInstanceProfileWithContext client w \<lparr>InstanceProfileName = Some arn\<rparr> of
             (Inl err, w') \<Rightarrow>
               (Inl (IidErrorWrap err), w',
                [GetInstanceProfile \<lparr>InstanceProfileName = Some arn\<rparr> (Inl err)])
           | (Inr output, w') \<Rightarrow>
               (case resolveInstances client w'
                       (S \<union> instanceValues instance
                          \<union> set (resolveRoles (Roles (InstanceProfile output)))) rest of
                  (r, w'', ev) \<Rightarrow>
                    (r, w'', GetInstanceProfile \<lparr>InstanceProfileName = Some arn\<rparr> (Inr output) # ev))))"
  by (auto simp: instanceProfileArn_def instanceValues_def addSelectors_eq Let_def
      resolveInstanceProfile_def Un_assoc
      split: option.splits prod.splits sum.splits)

declare resolveInstances.simps(2) [simp del]

lemma resolveInstances_facts:
  "resolveInstances client w S instances = (r, w', ev) \<Longrightarrow>
     prefix (profileRequests ev) (expectedProfileRequests instances)
     \<and> (\<forall>x \<in> set ev. \<exists>i out. x = GetInstanceProfile i out)
     \<and> (\<forall>S'. r = Inr S' \<longrightarrow>
           profileRequests ev = expectedProfileRequests instances
           \<and> S' = S \<union> (\<Union>i \<in> set instances. instanceValues i)
                    \<union> set (resolveRoles (profileRoles ev)))"
proof (induction instances arbitrary: w S r w' ev)
  case Nil
  then show ?case by (auto simp: expectedProfileRequests_Nil)
next
  case (Cons inst rest)
  show ?case
  proof (cases "instanceProfileArn inst")
    case None
    with Cons.prems have "resolveInstances client w (S \<union> instanceValues inst) rest = (r, w', ev)"
      by (simp add: resolveInstances_Cons)
    from Cons.IH [OF this] None show ?thesis
      by (auto simp: expectedProfileRequests_Cons)
  next
    case (Some arn)
    obtain res wa where call:
      "GetInstanceProfileWithContext client w \<lparr>InstanceProfileName = Some arn\<rparr> = (res, wa)"
      by (cases "GetInstanceProfileWithContext client w \<lparr>InstanceProfileName = Some arn\<rparr>") auto
    show ?thesis
    proof (cases res)
      case (Inl err)
      with Cons.prems Some call show ?thesis
        by (auto simp: resolveInstances_Cons expectedProfileRequests_Cons)
    next
      case (Inr out)
      obtain r2 w2 ev2 where rest:
        "resolveInstances client wa
           (S \<union> instanceValues inst \<union> set (resolveRoles (Roles (InstanceProfile out)))) rest
         = (r2, w2, ev2)"
        by (cases "resolveInstances client wa
           (S \<union> instanceValues inst \<union> set (resolveRoles (Roles (InstanceProfile out)))) rest")
          auto
      from Cons.prems Some call Inr rest
      have e: "r = r2" "w' = w2"
        "ev = GetInstanceProfile \<lparr>InstanceProfileName = Some arn\<rparr> (Inr out) # ev2"
        by (simp_all add: resolveInstances_Cons)
      from Cons.IH [OF rest] e Some show ?thesis
        by (auto simp: expectedProfileRequests_Cons resolveRoles_append)
    qed
  qed
qed

lemma resolveInstances_failure:
  "resolveInstances client w S instances = (r, w', ev) \<Longrightarrow> x \<in> set ev \<Longrightarrow> remoteFailure e x
     \<Longrightarrow> r = Inl (IidErrorWrap e) \<and> last ev = x"
proof (induction instances arbitrary: w S r w' ev)
  case Nil
  then show ?case by simp
next
  case (Cons inst rest)
  show ?case
  proof (cases "instanceProfileArn inst")
    case None
    with Cons.prems(1) have "resolveInstances client w (S \<union> instanceValues inst) rest = (r, w', ev)"
      by (simp add: resolveInstances_Cons)
    from Cons.IH [OF this Cons.prems(2,3)] show ?thesis .
  next
    case (Some arn)
    obtain res wa where call:
      "GetInstanceProfileWithContext client w \<lparr>InstanceProfileName = Some arn\<rparr> = (res, wa)"
      by (cases "GetInstanceProfileWithContext client w \<lparr>InstanceProfileName = Some arn\<rparr>") auto
    show ?thesis
    proof (cases res)
      case (Inl err)
      with Cons.prems Some call show ?thesis
        by (auto simp: resolveInstances_Cons)
    next
      case (Inr out)
      obtain r2 w2 ev2 where rest:
        "resolveInstances client wa
           (S \<union> instanceValues inst \<union> set (resolveRoles (Roles (InstanceProfile out)))) rest
         = (r2, w2, ev2)"
        by (cases "resolveInstances client wa
           (S \<union> instanceValues inst \<union> set (resolveRoles (Roles (InstanceProfile out)))) rest")
          auto
      from Cons.prems(1) Some call Inr rest
      have e: "r = r2" "w' = w2"
        "ev = GetInstanceProfile \<lparr>InstanceProfileName = Some arn\<rparr> (Inr out) # ev2"
        by (simp_all add: resolveInstances_Cons)
      with Cons.prems(2,3) have "x \<in> set ev2" by auto
      from Cons.IH [OF rest this Cons.prems(3)] e \<open>x \<in> set ev2\<close> show ?thesis
        by auto
    qed
  qed
qed

lemma resolveInstances_append:
  "resolveInstances client w S (xs @ ys) =
     (case resolveInstances client w S xs of
        (Inl err, w', ev) \<Rightarrow> (Inl err, w', ev)
      | (Inr S', w', ev) \<Rightarrow>
          (case resolveInstances client w' S' ys of
             (r, w'', ev') \<Rightarrow> (r, w'', ev @ ev')))"
proof (induction xs arbitrary: w S)
  case Nil
  then show ?case by (simp split: prod.splits)
next
  case (Cons inst rest)
  show ?case
    by (simp add: resolveInstances_Cons Cons.IH split: option.splits prod.splits sum.splits)
qed

lemma resolveReservations_concat:
  "resolveReservations client w S reservations =
     resolveInstances client w S (concat (map Instances reservations))"
  by (induction reservations arbitrary: w S)
    (simp_all add: resolveInstances_append split: prod.splits sum.splits)

lemma resolveSpiffeID_unparsed:
  "parseAgentID ParseSpiffeID spiffeID = Inl err \<Longrightarrow>
     resolveSpiffeID ParseSpiffeID p w spiffeID =
       (Inr None, p, w,
        [Warnf ''unrecognized Agent ID: %s: %v'' [StringArg spiffeID, ErrorArg err]])"
  by (simp add: resolveSpiffeID_def)

lemma resolveSpiffeID_parsed:
  "parseAgentID ParseSpiffeID spiffeID = Inr (accountID, region, instanceID) \<Longrightarrow>
     resolveSpiffeID ParseSpiffeID p w spiffeID =
       (case getRegionClient p region of
          (Inl err, p', ev) \<Rightarrow> (Inl err, p', w, ev)
        | (Inr client, p', ev) \<Rightarrow>
            (case DescribeInstancesWithContext client w
                    \<lparr>InstanceIds = [Some instanceID], Filters = instanceFilters\<rparr> of
               (Inl err, w') \<Rightarrow>
                 (Inl (IidErrorWrap err), p', w',
                  ev @ [DescribeInstances
                          \<lparr>InstanceIds = [Some instanceID], Filters = instanceFilters\<rparr> (Inl err)])
             | (Inr resp, w') \<Rightarrow>
                 (case resolveInstances client w' {} (allInstances resp) of
                    (Inl err, w'', ev') \<Rightarrow>
                      (Inl err, p', w'',
                       ev @ DescribeInstances
                              \<lparr>InstanceIds = [Some instanceID], Filters = instanceFilters\<rparr>
                              (Inr resp) # ev')
                  | (Inr selectorSet, w'', ev') \<Rightarrow>
                      (Inr (Some (sortedSelectors selectorSet)), p', w'',
                       ev @ DescribeInstances
                              \<lparr>InstanceIds = [Some instanceID], Filters = instanceFilters\<rparr>
                              (Inr resp) # ev'))))"
  by (simp add: resolveSpiffeID_def Let_def aws_String_def resolveReservations_concat
      allInstances_def split: prod.splits sum.splits)

lemma getRegionClient_events:
  "getRegionClient p region = (r, p', ev) \<Longrightarrow> \<forall>x \<in> set ev. \<exists>c ok. x = NewClient c ok"
  by (auto simp: getRegionClient_def Let_def split: option.splits sum.splits)

lemma resolveLoop_append:
  "resolveLoop P p w m (xs @ ys) =
     (case resolveLoop P p w m xs of
        (Inl err, p', w', ev) \<Rightarrow> (Inl err, p', w', ev)
      | (Inr m', p', w', ev) \<Rightarrow>
          (case resolveLoop P p' w' m' ys of
             (r, p'', w'', ev') \<Rightarrow> (r, p'', w'', ev @ ev')))"
proof (induction xs arbitrary: p w m)
  case Nil
  then show ?case by (simp split: prod.splits)
next
  case (Cons x xs)
  show ?case
    by (simp add: Cons.IH split: prod.splits sum.splits)
qed

lemma resolveLoop_untouched:
  "resolveLoop P p w m ids = (Inr m', p', w', ev) \<Longrightarrow>
     spiffeID \<notin> set ids \<or> (\<exists>err. parseAgentID P spiffeID = Inl err) \<Longrightarrow>
     m' spiffeID = m spiffeID"
proof (induction ids arbitrary: p w m ev)
  case Nil
  then show ?case by simp
next
  case (Cons x xs)
  obtain r1 p1 w1 ev1 where 1: "resolveSpiffeID P p w x = (r1, p1, w1, ev1)"
    by (cases "resolveSpiffeID P p w x") auto
  with Cons.prems(1) obtain sel where r1: "r1 = Inr sel"
    by (cases r1) auto
  obtain r2 p2 w2 ev2 where 2:
    "resolveLoop P p1 w1 (case sel of None \<Rightarrow> m | Some s \<Rightarrow> m(x \<mapsto> s)) xs = (r2, p2, w2, ev2)"
    by (cases "resolveLoop P p1 w1 (case sel of None \<Rightarrow> m | Some s \<Rightarrow> m(x \<mapsto> s)) xs") auto
  from Cons.prems(1) 1 r1 2 have r2: "r2 = Inr m'" "p2 = p'" "w2 = w'" by simp_all
  from Cons.prems(2) have rest: "spiffeID \<notin> set xs \<or> (\<exists>err. parseAgentID P spiffeID = Inl err)"
    by auto
  from Cons.IH [OF 2 [unfolded r2] rest]
  have "m' spiffeID = (case sel of None \<Rightarrow> m | Some s \<Rightarrow> m(x \<mapsto> s)) spiffeID" .
  moreover have "(case sel of None \<Rightarrow> m | Some s \<Rightarrow> m(x \<mapsto> s)) spiffeID = m spiffeID"
  proof (cases "x = spiffeID")
    case True
    with Cons.prems(2) obtain err where "parseAgentID P x = Inl err" by auto
    with 1 r1 have "sel = None" by (simp add: resolveSpiffeID_unparsed)
    then show ?thesis by simp
  next
    case False
    then show ?thesis by (cases sel) auto
  qed
  ultimately show ?case by simp
qed


subsection \<open>Remote failures\<close>

lemma NewClient_not_failure:
  "\<forall>x \<in> set ev. \<exists>c ok. x = NewClient c ok \<Longrightarrow> x \<in> set ev \<Longrightarrow> \<not> remoteFailure e x"
  by auto

lemma resolveSpiffeID_failure:
  assumes run: "resolveSpiffeID P p w s = (r, p', w', ev)"
    and x: "x \<in> set ev" and f: "remoteFailure e x"
  shows "r = Inl (IidErrorWrap e) \<and> last ev = x"
proof (cases "parseAgentID P s")
  case (Inl err)
  with run x f show ?thesis
    by (auto simp: resolveSpiffeID_unparsed)
next
  case (Inr t)
  obtain a region i where t: "t = (a, region, i)" by (cases t) auto
  obtain rc pc evc where g: "getRegionClient p region = (rc, pc, evc)"
    by (cases "getRegionClient p region") auto
  have nf: "y \<in> set evc \<Longrightarrow> \<not> remoteFailure e y" for y
    using getRegionClient_events [OF g] by auto
  show ?thesis
  proof (cases rc)
    case (Inl err)
    with run Inr t g have "ev = evc"
      by (simp add: resolveSpiffeID_parsed)
    with x f nf show ?thesis by auto
  next
    case client: (Inr client)
    let ?input = "\<lparr>InstanceIds = [Some i], Filters = instanceFilters\<rparr>"
    obtain rd wd where d: "DescribeInstancesWithContext client w ?input = (rd, wd)"
      by (cases "DescribeInstancesWithContext client w ?input") auto
    show ?thesis
    proof (cases rd)
      case (Inl err)
      with run Inr t g client d
      have e: "r = Inl (IidErrorWrap err)" "ev = evc @ [DescribeInstances ?input (Inl err)]"
        by (simp_all add: resolveSpiffeID_parsed)
      with x f nf have "x = DescribeInstances ?input (Inl err)" by auto
      with f e show ?thesis by auto
    next
      case resp: (Inr resp)
      obtain ri wi evi where i: "resolveInstances client wd {} (allInstances resp) = (ri, wi, evi)"
        by (cases "resolveInstances client wd {} (allInstances resp)") auto
      from run Inr t g client d resp i
      have e: "ev = evc @ DescribeInstances ?input (Inr resp) # evi"
        "\<forall>err. ri = Inl err \<longrightarrow> r = Inl err"
        by (auto simp: resolveSpiffeID_parsed split: sum.splits)
      with x f nf have xi: "x \<in> set evi" by auto
      then have "evi \<noteq> []" by auto
      with resolveInstances_failure [OF i xi f] e show ?thesis
        by simp
    qed
  qed
qed

lemma resolveLoop_failure:
  "resolveLoop P p w m ids = (r, p', w', ev) \<Longrightarrow> x \<in> set ev \<Longrightarrow> remoteFailure e x
     \<Longrightarrow> r = Inl (IidErrorWrap e) \<and> last ev = x"
proof (induction ids arbitrary: p w m r p' w' ev)
  case Nil
  then show ?case by simp
next
  case (Cons s ids)
  obtain r1 p1 w1 ev1 where 1: "resolveSpiffeID P p w s = (r1, p1, w1, ev1)"
    by (cases "resolveSpiffeID P p w s") auto
  show ?case
  proof (cases r1)
    case (Inl err)
    with Cons.prems(1) 1 have "r = Inl err" "ev = ev1" by simp_all
    with resolveSpiffeID_failure [OF 1 _ Cons.prems(3)] Cons.prems(2) Inl show ?thesis
      by simp
  next
    case (Inr sel)
    obtain r2 p2 w2 ev2 where 2:
      "resolveLoop P p1 w1 (case sel of None \<Rightarrow> m | Some v \<Rightarrow> m(s \<mapsto> v)) ids = (r2, p2, w2, ev2)"
      by (cases "resolveLoop P p1 w1 (case sel of None \<Rightarrow> m | Some v \<Rightarrow> m(s \<mapsto> v)) ids") auto
    from Cons.prems(1) 1 Inr 2 have e: "r = r2" "ev = ev1 @ ev2" by simp_all
    have "x \<notin> set ev1"
      using resolveSpiffeID_failure [OF 1 _ Cons.prems(3)] Inr by auto
    with Cons.prems(2) e have x2: "x \<in> set ev2" by simp
    from x2 have "ev2 \<noteq> []" by auto
    with Cons.IH [OF 2 x2 Cons.prems(3)] e show ?thesis
      by simp
  qed
qed

text \<open>
  C3. Whenever a call of the remote service made during \<^verbatim>\<open>Resolve\<close> returns an error, be it
  the instance description or the profile lookup, for whichever identity of the batch,
  \<^verbatim>\<open>Resolve\<close> returns that error wrapped by \<^verbatim>\<open>iidError\<close> and no response, and the failed call
  is the last thing it did.
\<close>

theorem Resolve_remote_error_fatal:
  assumes "Resolve ParseSpiffeID p w req = (r, p', w', ev)"
    and "x \<in> set ev"
    and "x = DescribeInstances describeInput (Inl err) \<or> x = GetInstanceProfile profileInput (Inl err)"
  shows "r = Inl (IidErrorWrap err) \<and> last ev = x"
proof -
  obtain r0 where 0: "resolveLoop ParseSpiffeID p w Map.empty (BaseSpiffeIdList req) = (r0, p', w', ev)"
    using assms(1) by (auto simp: Resolve_def split: prod.splits sum.splits)
  from assms(3) have "remoteFailure err x" by auto
  from resolveLoop_failure [OF 0 assms(2) this]
  have "r0 = Inl (IidErrorWrap err)" "last ev = x" by simp_all
  with assms(1) 0 show ?thesis
    by (simp add: Resolve_def)
qed

theorem Resolve_remote_error_fatal_witness:
  "fst (Resolve exampleParseSpiffeID examplePlugin ()
     \<lparr>BaseSpiffeIdList = [exampleAgentID ''i-web'', exampleAgentID ''i-orphan'',
                           exampleAgentID ''i-web'']\<rparr>)
     = Inl (IidErrorWrap ''NoSuchEntity'')
   \<and> last (snd (snd (snd (Resolve exampleParseSpiffeID examplePlugin ()
        \<lparr>BaseSpiffeIdList = [exampleAgentID ''i-web'', exampleAgentID ''i-orphan'',
                           exampleAgentID ''i-web'']\<rparr>))))
     = GetInstanceProfile \<lparr>InstanceProfileName = Some ''arn:gone''\<rparr> (Inl ''NoSuchEntity'')"
proof -
  let ?run = "Resolve exampleParseSpiffeID examplePlugin ()
     \<lparr>BaseSpiffeIdList = [exampleAgentID ''i-web'', exampleAgentID ''i-orphan'',
                           exampleAgentID ''i-web'']\<rparr>"
  have 1: "?run = (fst ?run, fst (snd ?run), (), snd (snd (snd ?run)))"
    by (simp add: prod_eq_iff)
  have 2: "GetInstanceProfile \<lparr>InstanceProfileName = Some ''arn:gone''\<rparr> (Inl ''NoSuchEntity'')
      \<in> set (snd (snd (snd ?run)))"
    by (simp add: example_defs exampleAgentID_def)
  from Resolve_remote_error_fatal [OF 1 2, of _ "''NoSuchEntity''"
      "\<lparr>InstanceProfileName = Some ''arn:gone''\<rparr>"]
  show ?thesis by simp
qed

subsection \<open>Identities that do not parse\<close>

lemma resolveLoop_skip:
  assumes "parseAgentID P s = Inl err"
  shows "resolveLoop P p w m (pre @ s # post) =
     (case resolveLoop P p w m pre of
        (Inl e, p', w', ev) \<Rightarrow> (Inl e, p', w', ev)
      | (Inr m', p', w', ev) \<Rightarrow>
          (case resolveLoop P p' w' m' post of
             (r, p'', w'', ev') \<Rightarrow>
               (r, p'', w'',
                ev @ Warnf ''unrecognized Agent ID: %s: %v'' [StringArg s, ErrorArg err] # ev')))"
  by (simp add: resolveLoop_append resolveSpiffeID_unparsed [OF assms]
      split: prod.splits sum.splits)

text \<open>
  C2. An identity that \<^verbatim>\<open>parseAgentID\<close> rejects costs nothing but a warning: resolving it
  returns neither selectors nor an error, touches neither the plugin nor the remote
  service and logs one warning. A batch that contains it has the result, the final plugin
  and remote state and the calls of the same batch without it, and the events differ by
  that warning only; and no response of \<^verbatim>\<open>Resolve\<close>, for any batch, has an entry for it.
\<close>

theorem Resolve_skips_malformed:
  assumes "parseAgentID ParseSpiffeID spiffeID = Inl err"
  shows "resolveSpiffeID ParseSpiffeID p w spiffeID =
           (Inr None, p, w,
            [Warnf ''unrecognized Agent ID: %s: %v'' [StringArg spiffeID, ErrorArg err]])
       \<and> (Resolve ParseSpiffeID p w \<lparr>BaseSpiffeIdList = pre @ spiffeID # post\<rparr>
             = (r, p', w', ev) \<longrightarrow>
           (\<exists>ev_without.
              Resolve ParseSpiffeID p w \<lparr>BaseSpiffeIdList = pre @ post\<rparr> = (r, p', w', ev_without)
              \<and> filter (\<lambda>x. \<not> isWarnf x) ev = filter (\<lambda>x. \<not> isWarnf x) ev_without
              \<and> ((\<exists>resp. r = Inr resp) \<longrightarrow>
                   Warnf ''unrecognized Agent ID: %s: %v'' [StringArg spiffeID, ErrorArg err]
                     \<in> set ev)))
       \<and> (Resolve ParseSpiffeID q v req = (Inr resp, q', v', ev') \<longrightarrow> Map resp spiffeID = None)"
proof -
  let ?warn = "Warnf ''unrecognized Agent ID: %s: %v'' [StringArg spiffeID, ErrorArg err]"
  have a: "resolveSpiffeID ParseSpiffeID p w spiffeID = (Inr None, p, w, [?warn])"
    using assms by (rule resolveSpiffeID_unparsed)
  have b: "\<exists>ev_without.
              Resolve ParseSpiffeID p w \<lparr>BaseSpiffeIdList = pre @ post\<rparr> = (r, p', w', ev_without)
              \<and> filter (\<lambda>x. \<not> isWarnf x) ev = filter (\<lambda>x. \<not> isWarnf x) ev_without
              \<and> ((\<exists>resp. r = Inr resp) \<longrightarrow> ?warn \<in> set ev)"
    if run: "Resolve ParseSpiffeID p w \<lparr>BaseSpiffeIdList = pre @ spiffeID # post\<rparr> = (r, p', w', ev)"
  proof -
    obtain r1 p1 w1 ev1 where 1: "resolveLoop ParseSpiffeID p w Map.empty pre = (r1, p1, w1, ev1)"
      by (cases "resolveLoop ParseSpiffeID p w Map.empty pre") auto
    show ?thesis
    proof (cases r1)
      case (Inl e)
      with run 1 have "r = Inl e" "p' = p1" "w' = w1" "ev = ev1"
        by (simp_all add: Resolve_def resolveLoop_skip [OF assms])
      moreover from Inl 1
      have "Resolve ParseSpiffeID p w \<lparr>BaseSpiffeIdList = pre @ post\<rparr> = (Inl e, p1, w1, ev1)"
        by (simp add: Resolve_def resolveLoop_append)
      ultimately show ?thesis by simp
    next
      case (Inr m1)
      obtain r2 p2 w2 ev2 where 2: "resolveLoop ParseSpiffeID p1 w1 m1 post = (r2, p2, w2, ev2)"
        by (cases "resolveLoop ParseSpiffeID p1 w1 m1 post") auto
      from 1 Inr 2
      have with_it: "resolveLoop ParseSpiffeID p w Map.empty (pre @ spiffeID # post)
          = (r2, p2, w2, ev1 @ ?warn # ev2)"
        by (simp add: resolveLoop_skip [OF assms])
      from 1 Inr 2
      have without: "resolveLoop ParseSpiffeID p w Map.empty (pre @ post) = (r2, p2, w2, ev1 @ ev2)"
        by (simp add: resolveLoop_append)
      from run with_it have e: "p' = p2" "w' = w2" "ev = ev1 @ ?warn # ev2"
        and r: "r = (case r2 of Inl e \<Rightarrow> Inl e | Inr m \<Rightarrow> Inr \<lparr>Map = m\<rparr>)"
        by (auto simp: Resolve_def split: sum.splits)
      from without r e
      have "Resolve ParseSpiffeID p w \<lparr>BaseSpiffeIdList = pre @ post\<rparr> = (r, p', w', ev1 @ ev2)"
        by (auto simp: Resolve_def split: sum.splits)
      with e show ?thesis by simp
    qed
  qed
  have c: "Map resp spiffeID = None"
    if run: "Resolve ParseSpiffeID q v req = (Inr resp, q', v', ev')"
  proof -
    from run obtain m where
      "resolveLoop ParseSpiffeID q v Map.empty (BaseSpiffeIdList req) = (Inr m, q', v', ev')"
      and "resp = \<lparr>Map = m\<rparr>"
      by (auto simp: Resolve_def split: prod.splits sum.splits)
    with resolveLoop_untouched [of ParseSpiffeID q v Map.empty "BaseSpiffeIdList req" m q' v' ev'
        spiffeID] assms
    show ?thesis by auto
  qed
  from a b c show ?thesis by blast
qed

theorem Resolve_skips_malformed_witness:
  "parseAgentID exampleParseSpiffeID ''malformed''
     = Inl (ErrsNew ''unable to parse agent id %q: %v''
              [''malformed'', ''not a SPIFFE ID of example.org''])
   \<and> fst (Resolve exampleParseSpiffeID examplePlugin ()
            \<lparr>BaseSpiffeIdList = [''malformed'', exampleAgentID ''i-web'']\<rparr>)
     = fst (Resolve exampleParseSpiffeID examplePlugin ()
            \<lparr>BaseSpiffeIdList = [exampleAgentID ''i-web'']\<rparr>)
   \<and> map_option selectorValues
        (Map (projr (fst (Resolve exampleParseSpiffeID examplePlugin ()
            \<lparr>BaseSpiffeIdList = [''malformed'', exampleAgentID ''i-web'']\<rparr>)))
           (exampleAgentID ''i-web''))
     = Some [''iamrole:arn:aws:iam::123456789012:role/role1'', ''sg:id:sg-1'',
             ''sg:name:default'', ''tag:Name:web1'']
   \<and> Map (projr (fst (Resolve exampleParseSpiffeID examplePlugin ()
            \<lparr>BaseSpiffeIdList = [''malformed'', exampleAgentID ''i-web'']\<rparr>))) ''malformed''
     = None"
proof -
  let ?with = "Resolve exampleParseSpiffeID examplePlugin ()
            \<lparr>BaseSpiffeIdList = [''malformed'', exampleAgentID ''i-web'']\<rparr>"
  let ?without = "Resolve exampleParseSpiffeID examplePlugin ()
            \<lparr>BaseSpiffeIdList = [exampleAgentID ''i-web'']\<rparr>"
  have bad: "parseAgentID exampleParseSpiffeID ''malformed''
     = Inl (ErrsNew ''unable to parse agent id %q: %v''
              [''malformed'', ''not a SPIFFE ID of example.org''])"
    by (simp add: parseAgentID_def exampleParseSpiffeID_def)
  have run: "Resolve exampleParseSpiffeID examplePlugin ()
            \<lparr>BaseSpiffeIdList = [] @ ''malformed'' # [exampleAgentID ''i-web'']\<rparr>
      = (fst ?with, fst (snd ?with), (), snd (snd (snd ?with)))"
    by (simp add: prod_eq_iff)
  have ok: "fst ?with = Inr (projr (fst ?with))"
    by (simp add: example_defs exampleAgentID_def)
  have run2: "?with = (Inr (projr (fst ?with)), fst (snd ?with), (), snd (snd (snd ?with)))"
    using ok by (simp add: prod_eq_iff)
  have vals: "map_option selectorValues (Map (projr (fst ?with)) (exampleAgentID ''i-web''))
     = Some [''iamrole:arn:aws:iam::123456789012:role/role1'', ''sg:id:sg-1'',
             ''sg:name:default'', ''tag:Name:web1'']"
    by (simp add: example_defs exampleAgentID_def selectorValues_def)
  note at_example = Resolve_skips_malformed [OF bad, of examplePlugin "()" "[]" "[exampleAgentID ''i-web'']"
      "fst ?with" "fst (snd ?with)" "()" "snd (snd (snd ?with))"
      examplePlugin "()" "\<lparr>BaseSpiffeIdList = [''malformed'', exampleAgentID ''i-web'']\<rparr>"
      "projr (fst ?with)" "fst (snd ?with)" "()" "snd (snd (snd ?with))"]
  from at_example run have "\<exists>ev_without. ?without = (fst ?with, fst (snd ?with), (), ev_without)"
    by auto
  then have same: "fst ?with = fst ?without"
    by auto
  from at_example run2 have none: "Map (projr (fst ?with)) ''malformed'' = None"
    by blast
  from bad same vals none show ?thesis by simp
qed


subsection \<open>Resolving before configuring\<close>

lemma getRegionClient_beforeConfigure:
  "beforeConfigure p \<Longrightarrow>
     getRegionClient p region = (Inl (IidErrorNew ''not configured'' []), p, [])"
  by (simp add: beforeConfigure_def getRegionClient_def lookupClient_def)

lemma resolveSpiffeID_beforeConfigure:
  "beforeConfigure p \<Longrightarrow> parseAgentID P s = Inr t \<Longrightarrow>
     resolveSpiffeID P p w s = (Inl (IidErrorNew ''not configured'' []), p, w, [])"
  by (cases t) (simp add: resolveSpiffeID_parsed getRegionClient_beforeConfigure)

lemma resolveLoop_beforeConfigure:
  "beforeConfigure p \<Longrightarrow> resolveLoop P p w m ids = (r, p', w', ev) \<Longrightarrow>
     p' = p \<and> w' = w \<and> (\<forall>x \<in> set ev. isWarnf x)
     \<and> ((\<exists>s \<in> set ids. \<exists>t. parseAgentID P s = Inr t) \<longrightarrow>
          r = Inl (IidErrorNew ''not configured'' []))"
proof (induction ids arbitrary: m r p' w' ev)
  case Nil
  then show ?case by simp
next
  case (Cons s ids)
  show ?case
  proof (cases "parseAgentID P s")
    case (Inl err)
    obtain r2 p2 w2 ev2 where 2: "resolveLoop P p w m ids = (r2, p2, w2, ev2)"
      by (cases "resolveLoop P p w m ids") auto
    from Cons.prems(2) Inl 2
    have e: "r = r2" "p' = p2" "w' = w2"
      "ev = Warnf ''unrecognized Agent ID: %s: %v'' [StringArg s, ErrorArg err] # ev2"
      by (simp_all add: resolveSpiffeID_unparsed)
    from Cons.IH [OF Cons.prems(1) 2] e Inl show ?thesis
      by auto
  next
    case (Inr t)
    with Cons.prems show ?thesis
      by (simp add: resolveSpiffeID_beforeConfigure)
  qed
qed

text \<open>
  C7. The fresh plugin has neither a configuration nor a client map, and a \<^verbatim>\<open>Configure\<close>
  that fails leaves it so. On such a plugin \<^verbatim>\<open>Resolve\<close>, given a batch with at least one
  identity that \<^verbatim>\<open>parseAgentID\<close> accepts, returns the error \<^verbatim>\<open>not configured\<close> of \<^verbatim>\<open>iidError\<close>,
  calls neither the remote service nor the client factory (it logs the warnings for the
  rejected identities before the first accepted one, nothing else) and leaves the plugin
  and the remote service as they were.
\<close>

theorem Resolve_before_Configure:
  "beforeConfigure (NewIIDResolverPlugin os_Getenv newAWSClient)
   \<and> (beforeConfigure q \<and> Configure hcl_Decode q creq = (Inl cerr, q') \<longrightarrow> beforeConfigure q')
   \<and> (beforeConfigure p
        \<and> (\<exists>s \<in> set (BaseSpiffeIdList req). \<exists>t. parseAgentID ParseSpiffeID s = Inr t)
        \<and> Resolve ParseSpiffeID p w req = (r, p', w', ev)
      \<longrightarrow> r = Inl (IidErrorNew ''not configured'' [])
          \<and> filter isRemoteCall ev = []
          \<and> (\<forall>x \<in> set ev. isWarnf x)
          \<and> p' = p \<and> w' = w)"
proof -
  have a: "beforeConfigure (NewIIDResolverPlugin os_Getenv newAWSClient)"
    by (simp add: beforeConfigure_def NewIIDResolverPlugin_def)
  have b: "beforeConfigure q'"
    if "beforeConfigure q" and "Configure hcl_Decode q creq = (Inl cerr, q')"
    using that Configure_failure_unchanged [of hcl_Decode q creq cerr q'] by simp
  have c: "r = Inl (IidErrorNew ''not configured'' [])
          \<and> filter isRemoteCall ev = []
          \<and> (\<forall>x \<in> set ev. isWarnf x)
          \<and> p' = p \<and> w' = w"
    if bc: "beforeConfigure p"
      and ok: "\<exists>s \<in> set (BaseSpiffeIdList req). \<exists>t. parseAgentID ParseSpiffeID s = Inr t"
      and run: "Resolve ParseSpiffeID p w req = (r, p', w', ev)"
  proof -
    obtain r0 where 0:
      "resolveLoop ParseSpiffeID p w Map.empty (BaseSpiffeIdList req) = (r0, p', w', ev)"
      using run by (auto simp: Resolve_def split: prod.splits sum.splits)
    from resolveLoop_beforeConfigure [OF bc 0] ok
    have f: "p' = p" "w' = w" "\<forall>x \<in> set ev. isWarnf x"
      "r0 = Inl (IidErrorNew ''not configured'' [])"
      by simp_all
    have "\<not> isRemoteCall x" if "isWarnf x" for x
      using that by (cases x) auto
    with f(3) have "filter isRemoteCall ev = []"
      by (auto simp: filter_empty_conv)
    with f run 0 show ?thesis
      by (simp add: Resolve_def)
  qed
  from a b c show ?thesis by blast
qed

theorem Resolve_before_Configure_witness:
  "beforeConfigure exampleNewPlugin
   \<and> Configure exampleDecode exampleNewPlugin \<lparr>Configuration = []\<rparr>
       = (Inl (IidErrorNew ''configuration missing access key id'' []), exampleNewPlugin)
   \<and> parseAgentID exampleParseSpiffeID (exampleAgentID ''i-web'')
       = Inr (''1234'', ''us-east-1'', ''i-web'')
   \<and> Resolve exampleParseSpiffeID exampleNewPlugin ()
        \<lparr>BaseSpiffeIdList = [''malformed'', exampleAgentID ''i-web'']\<rparr>
       = (Inl (IidErrorNew ''not configured'' []), exampleNewPlugin, (),
          [Warnf ''unrecognized Agent ID: %s: %v''
             [StringArg ''malformed'',
              ErrorArg (ErrsNew ''unable to parse agent id %q: %v''
                          [''malformed'', ''not a SPIFFE ID of example.org''])]])"
proof -
  let ?req = "\<lparr>BaseSpiffeIdList = [''malformed'', exampleAgentID ''i-web'']\<rparr>"
  let ?run = "Resolve exampleParseSpiffeID exampleNewPlugin () ?req"
  have cfg: "Configure exampleDecode exampleNewPlugin \<lparr>Configuration = []\<rparr>
       = (Inl (IidErrorNew ''configuration missing access key id'' []), exampleNewPlugin)"
    by (simp add: Configure_def exampleDecode_def exampleNewPlugin_def NewIIDResolverPlugin_def
        exampleGetenv_def Let_def)
  have parse: "parseAgentID exampleParseSpiffeID (exampleAgentID ''i-web'')
       = Inr (''1234'', ''us-east-1'', ''i-web'')"
    by (simp add: example_defs exampleAgentID_def)
  have ok: "\<exists>s \<in> set (BaseSpiffeIdList ?req). \<exists>t. parseAgentID exampleParseSpiffeID s = Inr t"
    using parse by simp
  have run: "?run = (fst ?run, fst (snd ?run), (), snd (snd (snd ?run)))"
    by (simp add: prod_eq_iff)
  have ev: "snd (snd (snd ?run)) = [Warnf ''unrecognized Agent ID: %s: %v''
             [StringArg ''malformed'',
              ErrorArg (ErrsNew ''unable to parse agent id %q: %v''
                          [''malformed'', ''not a SPIFFE ID of example.org''])]]"
    by (simp add: example_defs exampleAgentID_def)
  note at_example = Resolve_before_Configure [where os_Getenv = exampleGetenv
      and newAWSClient = exampleNewClient and q = exampleNewPlugin
      and hcl_Decode = exampleDecode and creq = "\<lparr>Configuration = []\<rparr>"
      and cerr = "IidErrorNew ''configuration missing access key id'' []"
      and q' = exampleNewPlugin and p = exampleNewPlugin and req = ?req
      and ParseSpiffeID = exampleParseSpiffeID and w = "()" and r = "fst ?run"
      and p' = "fst (snd ?run)" and w' = "()" and ev = "snd (snd (snd ?run))",
      folded exampleNewPlugin_def]
  from at_example cfg ok run
  have "fst ?run = Inl (IidErrorNew ''not configured'' [])" "fst (snd ?run) = exampleNewPlugin"
    "beforeConfigure exampleNewPlugin"
    by blast+
  with run ev cfg parse show ?thesis by simp
qed


subsection \<open>An identity without matching instances\<close>







subsection \<open>The instance profile lookup\<close>


lemma only_NewClient_profileRequests:
  "\<forall>x \<in> set ev. \<exists>c ok. x = NewClient c ok \<Longrightarrow> profileRequests ev = [] \<and> profileRoles ev = []"
  by (induction ev) auto

lemma resolveSpiffeID_facts:
  assumes parse: "parseAgentID P s = Inr (accountID, region, instanceID)"
    and client: "getRegionClient p region = (Inr client, p_mid, ev_client)"
    and descr: "DescribeInstancesWithContext client w
           \<lparr>InstanceIds = [Some instanceID], Filters = instanceFilters\<rparr> = (Inr resp, w_mid)"
    and run: "resolveSpiffeID P p w s = (r, p', w', ev)"
  shows "prefix (profileRequests ev) (expectedProfileRequests (allInstances resp))
     \<and> (\<forall>sels. r = Inr sels \<longrightarrow>
           profileRequests ev = expectedProfileRequests (allInstances resp)
           \<and> (\<exists>v. sels = Some v
                \<and> set (selectorValues v) =
                     (\<Union>i \<in> set (allInstances resp). instanceValues i)
                       \<union> set (resolveRoles (profileRoles ev))))"
proof -
  obtain ri wi evi where i: "resolveInstances client w_mid {} (allInstances resp) = (ri, wi, evi)"
    by (cases "resolveInstances client w_mid {} (allInstances resp)") auto
  note f = resolveInstances_facts [OF i]
  from getRegionClient_events [OF client]
  have c: "profileRequests ev_client = []" "profileRoles ev_client = []"
    by (simp_all add: only_NewClient_profileRequests)
  from run parse client descr i
  have ev: "ev = ev_client @ DescribeInstances
      \<lparr>InstanceIds = [Some instanceID], Filters = instanceFilters\<rparr> (Inr resp) # evi"
    by (auto simp: resolveSpiffeID_parsed split: sum.splits)
  then have pr: "profileRequests ev = profileRequests evi" "profileRoles ev = profileRoles evi"
    using c by (simp_all add: profileRequests_append profileRoles_append)
  have 1: "prefix (profileRequests ev) (expectedProfileRequests (allInstances resp))"
    using f pr by simp
  have 2: "profileRequests ev = expectedProfileRequests (allInstances resp)
           \<and> (\<exists>v. sels = Some v
                \<and> set (selectorValues v) =
                     (\<Union>i \<in> set (allInstances resp). instanceValues i)
                       \<union> set (resolveRoles (profileRoles ev)))"
    if r: "r = Inr sels" for sels
  proof -
    from run parse client descr i r obtain S where S: "ri = Inr S"
      and sels: "sels = Some (sortedSelectors S)"
      by (auto simp: resolveSpiffeID_parsed split: sum.splits)
    from f S have req: "profileRequests evi = expectedProfileRequests (allInstances resp)"
      and Seq: "S = (\<Union>i \<in> set (allInstances resp). instanceValues i)
                    \<union> set (resolveRoles (profileRoles evi))"
      by simp_all
    have "finite S"
      unfolding Seq by (auto simp: instanceValues_def)
    then have "set (selectorValues (sortedSelectors S)) = S"
      by (simp add: selectorValues_sortedSelectors)
    with req Seq sels pr show ?thesis by simp
  qed
  from 1 2 show ?thesis by blast
qed

text \<open>
  C10. In the resolution of an identity whose instance description succeeded, the inputs
  of the profile lookups made are, in order, those that the returned instances call for:
  one for each instance with an attached profile whose ARN is present, with that ARN as
  it stands in the field \<^verbatim>\<open>InstanceProfileName\<close>. When a lookup fails the later ones are not
  made; when the resolution succeeds all of them are. So the name field of every lookup is
  the ARN pointer of the profile attached to one of the returned instances.
\<close>

theorem profile_lookup_named_by_arn:
  assumes "parseAgentID ParseSpiffeID spiffeID = Inr (accountID, region, instanceID)"
    and "getRegionClient p region = (Inr client, p_mid, ev_client)"
    and "DescribeInstancesWithContext client w
           \<lparr>InstanceIds = [Some instanceID], Filters = instanceFilters\<rparr> = (Inr described, w_mid)"
    and "resolveSpiffeID ParseSpiffeID p w spiffeID = (r, p', w', ev)"
  shows "prefix (profileRequests ev) (expectedProfileRequests (allInstances described))
     \<and> ((\<exists>sels. r = Inr sels) \<longrightarrow>
           profileRequests ev = expectedProfileRequests (allInstances described))
     \<and> (\<forall>input \<in> set (profileRequests ev).
           \<exists>inst \<in> set (allInstances described). \<exists>profile arn.
             IamInstanceProfile inst = Some profile
             \<and> IamInstanceProfile_Arn profile = Some arn
             \<and> InstanceProfileName input = IamInstanceProfile_Arn profile)"
proof -
  note f = resolveSpiffeID_facts [OF assms]
  have "set (profileRequests ev) \<subseteq> set (expectedProfileRequests (allInstances described))"
    using f by (auto dest: set_mono_prefix)
  moreover have "\<exists>inst \<in> set insts. \<exists>profile arn.
             IamInstanceProfile inst = Some profile
             \<and> IamInstanceProfile_Arn profile = Some arn
             \<and> InstanceProfileName input = IamInstanceProfile_Arn profile"
    if "input \<in> set (expectedProfileRequests insts)" for input insts
    using that
    by (induction insts)
      (auto simp: expectedProfileRequests_Nil expectedProfileRequests_Cons instanceProfileArn_def
        split: option.splits)
  ultimately show ?thesis
    using f by blast
qed


theorem profile_lookup_named_by_arn_witness:
  "IamInstanceProfile exampleWebInstance
     = Some \<lparr>IamInstanceProfile_Arn = Some ''arn:aws:iam::123456789012:instance-profile/role1''\<rparr>
   \<and> profileRequests (snd (snd (snd
        (resolveSpiffeID exampleParseSpiffeID examplePlugin () (exampleAgentID ''i-web'')))))
     = [\<lparr>InstanceProfileName = Some ''arn:aws:iam::123456789012:instance-profile/role1''\<rparr>]"
proof -
  let ?run = "resolveSpiffeID exampleParseSpiffeID examplePlugin () (exampleAgentID ''i-web'')"
  have 1: "parseAgentID exampleParseSpiffeID (exampleAgentID ''i-web'')
      = Inr (''1234'', ''us-east-1'', ''i-web'')"
    by (simp add: example_defs exampleAgentID_def)
  have 2: "getRegionClient examplePlugin ''us-east-1''
      = (Inr exampleClient, fst (snd (getRegionClient examplePlugin ''us-east-1'')),
         snd (snd (getRegionClient examplePlugin ''us-east-1'')))"
    by (simp add: example_defs)
  have 3: "DescribeInstancesWithContext exampleClient ()
           \<lparr>InstanceIds = [Some ''i-web''], Filters = instanceFilters\<rparr>
      = (Inr \<lparr>Reservations = [\<lparr>Instances = [exampleWebInstance]\<rparr>]\<rparr>, ())"
    by (simp add: exampleClient_def exampleDescribe_def)
  have 4: "?run = (Inr (projr (fst ?run)), fst (snd ?run), (), snd (snd (snd ?run)))"
    by (simp add: example_defs exampleAgentID_def)
  have 5: "expectedProfileRequests (allInstances \<lparr>Reservations = [\<lparr>Instances = [exampleWebInstance]\<rparr>]\<rparr>)
      = [\<lparr>InstanceProfileName = Some ''arn:aws:iam::123456789012:instance-profile/role1''\<rparr>]"
    by (simp add: allInstances_def expectedProfileRequests_Cons expectedProfileRequests_Nil
        instanceProfileArn_def exampleWebInstance_def exampleProfileArn_def)
  have 6: "IamInstanceProfile exampleWebInstance
     = Some \<lparr>IamInstanceProfile_Arn = Some ''arn:aws:iam::123456789012:instance-profile/role1''\<rparr>"
    by (simp add: exampleWebInstance_def exampleProfileArn_def)
  from profile_lookup_named_by_arn [OF 1 2 3 4] 5 6
  show ?thesis by simp
qed






end
